theory Spec2Isabelle
  imports Complex_Main
begin

section \<open>Data model of the agent swarm\<close>

text \<open>
  The development follows \<^verbatim>\<open>agents/core/ai-agent-swarm.js\<close>, class \<^verbatim>\<open>AIAgentSwarm\<close>.
  An agent is the object stored in \<^verbatim>\<open>this.agents\<close> by \<^verbatim>\<open>initializeAgents\<close>; only the fields the
  scheduling and metrics code reads or writes are kept (\<^verbatim>\<open>name\<close>, \<^verbatim>\<open>specialization\<close>,
  \<^verbatim>\<open>capabilities\<close>, \<^verbatim>\<open>prompt\<close> and \<^verbatim>\<open>lastActive\<close> only feed the prompt text and the displays).
  Counters and times are JavaScript numbers holding natural numbers.
\<close>

datatype agent_status = Idle | Active

record agent =
  agent_id :: string
  model :: string
  status :: agent_status
  tasksCompleted :: nat
  averageResponseTime :: nat
  successRate :: nat

text \<open>An entry of \<^verbatim>\<open>this.swarmMetrics.agentEfficiency\<close>.\<close>

record efficiency =
  tasksAssigned :: nat
  eff_tasksCompleted :: nat
  averageTime :: nat
  eff_successRate :: nat

record swarm_metrics =
  totalTasks :: nat
  completedTasks :: nat
  failedTasks :: nat
  averageTaskTime :: nat
  agentEfficiency :: "string \<rightharpoonup> efficiency"

text \<open>The mutable part of the object: \<^verbatim>\<open>this.agents\<close> and \<^verbatim>\<open>this.swarmMetrics\<close>.\<close>

record swarm_state =
  agents :: "string \<rightharpoonup> agent"
  swarmMetrics :: swarm_metrics

text \<open>\<^verbatim>\<open>this.config\<close>; \<^verbatim>\<open>retryAttempts\<close> is never read by the class.\<close>

record config =
  maxConcurrentAgents :: nat
  taskTimeout :: nat
  coordinationModel :: string

definition defaultConfig :: config where
  "defaultConfig =
     \<lparr>maxConcurrentAgents = 6, taskTimeout = 120000, coordinationModel = ''x-ai/grok-code-fast-1''\<rparr>"

record repository =
  owner :: string
  repo :: string

datatype priority = High | Medium | Low

record swarm_task =
  task_id :: string
  task_agentId :: string
  task_type :: string
  task_repository :: repository
  task_priority :: priority
  task_description :: string

text \<open>
  The object returned by \<^verbatim>\<open>executeAgentTask\<close>. The handler's object has no \<^verbatim>\<open>result\<close> and
  \<^verbatim>\<open>reasoning\<close> properties at all; absent and \<^verbatim>\<open>null\<close> are both \<open>None\<close> here. The
  \<^verbatim>\<open>timestamp\<close> is left out.
\<close>

record task_result =
  taskId :: string
  agentId :: string
  rtype :: string
  success :: bool
  result :: "string option"
  reasoning :: "string option"
  error :: "string option"
  executionTime :: nat

text \<open>
  What \<^verbatim>\<open>this.wrapper.chat\<close> does is outside the class. Its promise either resolves with
  \<^verbatim>\<open>{success: true, data}\<close> (message content and reasoning), resolves with
  \<^verbatim>\<open>{success: false, error}\<close>, resolves with a malformed value (\<^verbatim>\<open>undefined\<close>, or
  \<^verbatim>\<open>success: true\<close> without \<^verbatim>\<open>data.choices[0].message\<close>), or rejects with an \<^verbatim>\<open>Error\<close>
  carrying a message; it settles \<open>latency\<close> milliseconds after the call. Reading
  \<^verbatim>\<open>result.success\<close> or \<^verbatim>\<open>result.data.choices[0].message.content\<close> on a malformed value throws
  a \<^verbatim>\<open>TypeError\<close>; \<open>ChatMalformed\<close> carries the message of that error, which is the
  engine's.
\<close>

datatype chat_response =
  ChatSuccess string string
| ChatFailure string
| ChatMalformed string
| ChatReject string

record chat_call =
  response :: chat_response
  latency :: nat

text \<open>What a rejected promise carries: an \<^verbatim>\<open>Error\<close> with its message, or the engine's \<^verbatim>\<open>TypeError\<close>.\<close>

datatype js_error = Error string | TypeError

section \<open>initializeAgents\<close>

definition agentDefinitions :: "(string \<times> string) list" where
  "agentDefinitions =
     [(''architect'', ''x-ai/grok-code-fast-1''),
      (''security'', ''deepseek/deepseek-chat-v3.1:free''),
      (''performance'', ''qwen/qwen3-30b-a3b-thinking-2507''),
      (''quality'', ''openai/gpt-oss-120b:free''),
      (''testing'', ''x-ai/grok-code-fast-1''),
      (''documentation'', ''google/gemini-2.5-flash-image-preview:free'')]"

definition newAgent :: "string \<Rightarrow> string \<Rightarrow> agent" where
  "newAgent i m =
     \<lparr>agent_id = i, model = m, status = Idle, tasksCompleted = 0,
      averageResponseTime = 0, successRate = 100\<rparr>"

definition newEfficiency :: efficiency where
  "newEfficiency =
     \<lparr>tasksAssigned = 0, eff_tasksCompleted = 0, averageTime = 0, eff_successRate = 100\<rparr>"

text \<open>The state the constructor leaves: empty swarm totals, then \<^verbatim>\<open>initializeAgents()\<close>.\<close>

definition initializeAgents :: swarm_state where
  "initializeAgents =
     \<lparr>agents = map_of (map (\<lambda>(i, m). (i, newAgent i m)) agentDefinitions),
      swarmMetrics =
        \<lparr>totalTasks = 0, completedTasks = 0, failedTasks = 0, averageTaskTime = 0,
         agentEfficiency = map_of (map (\<lambda>(i, m). (i, newEfficiency)) agentDefinitions)\<rparr>\<rparr>"

section \<open>executeAgentTask\<close>

text \<open>\<^verbatim>\<open>Math.round((a + e) / 2)\<close> on natural numbers: halves round up.\<close>

definition roundHalf :: "nat \<Rightarrow> nat \<Rightarrow> nat" where
  "roundHalf a e = (a + e + 1) div 2"

text \<open>
  The delay with which \<^verbatim>\<open>setTimeout(f, ms)\<close> runs under Node, where the class is a module:
  a delay below 1 or above \<open>2147483647\<close> is run as 1 ms. The constructor's
  \<^verbatim>\<open>config.taskTimeout || 120000\<close> is overwritten by \<^verbatim>\<open>...config\<close>, so that \<open>0\<close> does reach
  \<^verbatim>\<open>this.config.taskTimeout\<close>.
\<close>

definition timerDelay :: "nat \<Rightarrow> nat" where
  "timerDelay ms = (if ms < 1 \<or> 2147483647 < ms then 1 else ms)"

text \<open>
  The race between the chat promise and the timer set with \<^verbatim>\<open>taskTimeout\<close>: the timer wins
  when the chat call is still pending after the timer's delay.
\<close>

definition timedOut :: "config \<Rightarrow> chat_call \<Rightarrow> bool" where
  "timedOut cfg call = (timerDelay (taskTimeout cfg) < latency call)"

text \<open>\<^verbatim>\<open>Date.now() - startTime\<close> when the race settles.\<close>

definition elapsed :: "config \<Rightarrow> chat_call \<Rightarrow> nat" where
  "elapsed cfg call =
     (if timedOut cfg call then timerDelay (taskTimeout cfg) else latency call)"


definition setAgent :: "swarm_state \<Rightarrow> string \<Rightarrow> agent \<Rightarrow> swarm_state" where
  "setAgent st a ag = st\<lparr>agents := (agents st)(a \<mapsto> ag)\<rparr>"

definition setEfficiency :: "swarm_state \<Rightarrow> string \<Rightarrow> efficiency \<Rightarrow> swarm_state" where
  "setEfficiency st a e =
     st\<lparr>swarmMetrics := (swarmMetrics st)
          \<lparr>agentEfficiency := (agentEfficiency (swarmMetrics st))(a \<mapsto> e)\<rparr>\<rparr>"

text \<open>
  The \<^verbatim>\<open>catch (error)\<close> block, entered with the agent and \<^verbatim>\<open>error.message\<close>. Its own
  \<^verbatim>\<open>agentEfficiency[task.agentId].tasksAssigned++\<close> throws a \<^verbatim>\<open>TypeError\<close> out of the function
  when the entry is missing.
\<close>

definition catchBlock ::
  "swarm_state \<Rightarrow> swarm_task \<Rightarrow> agent \<Rightarrow> string \<Rightarrow> nat \<Rightarrow> swarm_state \<times> (js_error + task_result)" where
  "catchBlock st task ag msg t =
     (let st1 = setAgent st (task_agentId task) (ag\<lparr>status := Idle\<rparr>) in
      case agentEfficiency (swarmMetrics st1) (task_agentId task) of
        None \<Rightarrow> (st1, Inl TypeError)
      | Some e \<Rightarrow>
          (setEfficiency st1 (task_agentId task) (e\<lparr>tasksAssigned := tasksAssigned e + 1\<rparr>),
           Inr \<lparr>taskId = task_id task, agentId = task_agentId task, rtype = task_type task,
                success = False, result = None, reasoning = None, error = Some msg,
                executionTime = t\<rparr>))"

text \<open>
  The statements after the race in the \<^verbatim>\<open>try\<close> block, for a chat promise that resolved.
  The metrics are updated first, then the return object is built by reading the answer:
  \<open>built\<close> is that object, or the message of the \<^verbatim>\<open>TypeError\<close> that reading a malformed
  answer throws, which takes the run into the \<^verbatim>\<open>catch\<close> block with the metrics already
  updated. A missing \<^verbatim>\<open>agentEfficiency\<close> entry throws inside the \<^verbatim>\<open>try\<close>, after the agent
  was updated, and the handler then throws again on the same entry.
\<close>

definition tryBlock ::
  "swarm_state \<Rightarrow> swarm_task \<Rightarrow> agent \<Rightarrow> string + task_result \<Rightarrow> nat
     \<Rightarrow> swarm_state \<times> (js_error + task_result)" where
  "tryBlock st task ag built t =
     (let ag1 = ag\<lparr>tasksCompleted := tasksCompleted ag + 1,
                    averageResponseTime := roundHalf (averageResponseTime ag) t,
                    status := Idle\<rparr>;
          st1 = setAgent st (task_agentId task) ag1 in
      case agentEfficiency (swarmMetrics st1) (task_agentId task) of
        None \<Rightarrow> (st1, Inl TypeError)
      | Some e \<Rightarrow>
          (let st2 = setEfficiency st1 (task_agentId task)
                       (e\<lparr>eff_tasksCompleted := eff_tasksCompleted e + 1,
                          averageTime := roundHalf (averageTime e) t\<rparr>) in
           case built of
             Inr returnObject \<Rightarrow> (st2, Inr returnObject)
           | Inl msg \<Rightarrow> catchBlock st2 task ag1 msg t))"

text \<open>
  \<^verbatim>\<open>executeAgentTask(task)\<close>, given what the chat call of this task does. The prompt that
  \<^verbatim>\<open>buildAgentPrompt\<close> builds only goes into that call. The result is the new state and
  either the thrown error (\<open>Inl\<close>, a rejected promise) or the returned object.
\<close>

definition executeAgentTask ::
  "config \<Rightarrow> swarm_state \<Rightarrow> swarm_task \<Rightarrow> chat_call \<Rightarrow> swarm_state \<times> (js_error + task_result)" where
  "executeAgentTask cfg st task call =
     (case agents st (task_agentId task) of
        None \<Rightarrow> (st, Inl (Error (''Agent '' @ task_agentId task @ '' not found'')))
      | Some ag0 \<Rightarrow>
          (let ag = ag0\<lparr>status := Active\<rparr>;
               st1 = setAgent st (task_agentId task) ag in
           if timedOut cfg call then catchBlock st1 task ag ''Task timeout'' (elapsed cfg call)
           else
             (case response call of
                ChatReject msg \<Rightarrow> catchBlock st1 task ag msg (elapsed cfg call)
              | ChatSuccess content reason \<Rightarrow>
                  tryBlock st1 task ag
                    (Inr \<lparr>taskId = task_id task, agentId = task_agentId task,
                          rtype = task_type task, success = True, result = Some content,
                          reasoning = Some reason, error = None,
                          executionTime = elapsed cfg call\<rparr>)
                    (elapsed cfg call)
              | ChatFailure err \<Rightarrow>
                  tryBlock st1 task ag
                    (Inr \<lparr>taskId = task_id task, agentId = task_agentId task,
                          rtype = task_type task, success = False, result = None,
                          reasoning = None, error = Some err,
                          executionTime = elapsed cfg call\<rparr>)
                    (elapsed cfg call)
              | ChatMalformed msg \<Rightarrow> tryBlock st1 task ag (Inl msg) (elapsed cfg call))))"

section \<open>createSwarmTasks\<close>

text \<open>
  \<^verbatim>\<open>analysisTypes.includes('comprehensive') || analysisTypes.includes(kind)\<close>.
\<close>

definition requested :: "string list \<Rightarrow> string \<Rightarrow> bool" where
  "requested analysisTypes kind =
     (''comprehensive'' \<in> set analysisTypes \<or> kind \<in> set analysisTypes)"

text \<open>The analysis kinds that \<open>createSwarmTasks\<close> looks for.\<close>

definition analysisKinds :: "string list" where
  "analysisKinds =
     [''comprehensive'', ''architecture'', ''security'', ''performance'', ''quality'',
      ''testing'', ''documentation'']"

definition mkTask ::
  "string \<Rightarrow> string \<Rightarrow> string \<Rightarrow> repository \<Rightarrow> priority \<Rightarrow> string \<Rightarrow> swarm_task" where
  "mkTask i a ty r p d =
     \<lparr>task_id = i, task_agentId = a, task_type = ty, task_repository = r, task_priority = p,
      task_description = d\<rparr>"

text \<open>
  The six \<^verbatim>\<open>if\<close> blocks in source order. \<open>stamp k\<close> is the text of \<^verbatim>\<open>Date.now()\<close> read by the
  \<open>k\<close>-th block.
\<close>

definition createSwarmTasks :: "(nat \<Rightarrow> string) \<Rightarrow> repository \<Rightarrow> string list \<Rightarrow> swarm_task list" where
  "createSwarmTasks stamp r analysisTypes =
     (if requested analysisTypes ''architecture''
      then [mkTask (''arch-'' @ stamp 0) ''architect'' ''architecture-analysis'' r High
              ''Analyze system architecture and design patterns'']
      else []) @
     (if requested analysisTypes ''security''
      then [mkTask (''sec-'' @ stamp 1) ''security'' ''security-analysis'' r High
              ''Comprehensive security vulnerability assessment'']
      else []) @
     (if requested analysisTypes ''performance''
      then [mkTask (''perf-'' @ stamp 2) ''performance'' ''performance-analysis'' r Medium
              ''Performance bottleneck identification and optimization'']
      else []) @
     (if requested analysisTypes ''quality''
      then [mkTask (''qual-'' @ stamp 3) ''quality'' ''quality-analysis'' r Medium
              ''Code quality assessment and best practices review'']
      else []) @
     (if requested analysisTypes ''testing''
      then [mkTask (''test-'' @ stamp 4) ''testing'' ''testing-analysis'' r Low
              ''Test coverage analysis and strategy recommendations'']
      else []) @
     (if requested analysisTypes ''documentation''
      then [mkTask (''doc-'' @ stamp 5) ''documentation'' ''documentation-analysis'' r Low
              ''Documentation completeness and improvement suggestions'']
      else [])"

section \<open>executeSwarmTasks\<close>

text \<open>
  An \<^verbatim>\<open>async\<close> function returns, throws (its promise rejects) or never settles.
\<close>

datatype 'a completion = Returns 'a | Throws js_error | Hangs

text \<open>
  An element of the local array \<^verbatim>\<open>activeTasks\<close>: the promise of one \<^verbatim>\<open>executeAgentTask\<close>
  call, carrying the \<^verbatim>\<open>id\<close> property the loop sets on it. Time is in milliseconds from the
  call of \<^verbatim>\<open>executeSwarmTasks\<close>; \<open>startedAt\<close> and \<open>settlesAt\<close> record when the task was
  started and when its promise settles, \<open>settled\<close> with what.
\<close>

record promise =
  p_id :: string
  startedAt :: nat
  settlesAt :: nat
  settled :: "js_error + task_result"

text \<open>
  \<^verbatim>\<open>this.executeAgentTask(task)\<close> at time \<open>now\<close>. An unknown agent rejects the promise at
  once; otherwise it settles when the race inside settles. What the promise settles with
  is read off the state at the call of \<^verbatim>\<open>executeSwarmTasks\<close>: it only depends on which
  agents and efficiency entries exist, and no task changes that.
\<close>

definition startTask ::
  "config \<Rightarrow> swarm_state \<Rightarrow> (swarm_task \<Rightarrow> chat_call) \<Rightarrow> nat \<Rightarrow> swarm_task \<Rightarrow> promise" where
  "startTask cfg st backend now task =
     \<lparr>p_id = task_id task, startedAt = now,
      settlesAt = now + (case agents st (task_agentId task) of
                           None \<Rightarrow> 0
                         | Some ag \<Rightarrow> elapsed cfg (backend task)),
      settled = snd (executeAgentTask cfg st task (backend task))\<rparr>"

text \<open>\<^verbatim>\<open>const priority = { high: 3, medium: 2, low: 1 }\<close>\<close>

fun priorityValue :: "priority \<Rightarrow> int" where
  "priorityValue High = 3"
| "priorityValue Medium = 2"
| "priorityValue Low = 1"

text \<open>
  \<^verbatim>\<open>tasks.sort((a, b) => priority[b.priority] - priority[a.priority])\<close>: a stable sort,
  highest priority first.
\<close>

definition sortByPriority :: "swarm_task list \<Rightarrow> swarm_task list" where
  "sortByPriority tasks = sort_key (\<lambda>t. - priorityValue (task_priority t)) tasks"

text \<open>\<^verbatim>\<open>Array.prototype.findIndex\<close>: the first index whose element satisfies \<open>P\<close>, or \<open>-1\<close>.\<close>

fun findIndexFrom :: "('a \<Rightarrow> bool) \<Rightarrow> 'a list \<Rightarrow> int \<Rightarrow> int" where
  "findIndexFrom P [] i = - 1"
| "findIndexFrom P (x # xs) i = (if P x then i else findIndexFrom P xs (i + 1))"

definition findIndex :: "('a \<Rightarrow> bool) \<Rightarrow> 'a list \<Rightarrow> int" where
  "findIndex P xs = findIndexFrom P xs 0"

text \<open>
  The array after \<^verbatim>\<open>xs.splice(i, 1)\<close>: a negative start counts from the end, and a start
  beyond the end removes nothing.
\<close>

definition splice1 :: "int \<Rightarrow> 'a list \<Rightarrow> 'a list" where
  "splice1 i xs =
     (let n = int (length xs);
          k = nat (if i < 0 then max (n + i) 0 else min i n)
      in take k xs @ drop (Suc k) xs)"

text \<open>
  \<^verbatim>\<open>completedTask.id\<close>, read on the object that \<^verbatim>\<open>executeAgentTask\<close> returns: the object has
  \<^verbatim>\<open>taskId\<close> and no \<^verbatim>\<open>id\<close>, so the read gives \<^verbatim>\<open>undefined\<close>.
\<close>

definition result_id :: "task_result \<Rightarrow> string option" where
  "result_id r = None"

fun earliest :: "promise list \<Rightarrow> nat" where
  "earliest [] = 0"
| "earliest [p] = settlesAt p"
| "earliest (p # q # ps) = min (settlesAt p) (earliest (q # ps))"

text \<open>
  \<^verbatim>\<open>await Promise.race(activeTasks)\<close> at time \<open>now\<close>: the time at which the race settles and
  the promise that settles it. Promises already settled win in array order; otherwise the
  first to settle wins (array order between promises settling in the same millisecond).
  The race over an empty array never settles.
\<close>

definition raceActive :: "nat \<Rightarrow> promise list \<Rightarrow> (nat \<times> promise) option" where
  "raceActive now active =
     (if active = [] then None
      else
        (let t = max now (earliest active) in
         map_option (Pair t) (find (\<lambda>p. settlesAt p \<le> t) active)))"

text \<open>
  The \<^verbatim>\<open>for (const task of tasks)\<close> loop. The state is the clock and \<^verbatim>\<open>activeTasks\<close>;
  \<open>started\<close> logs every promise created, in order, and is not read by the loop.
\<close>

fun admitTasks ::
  "config \<Rightarrow> (nat \<Rightarrow> swarm_task \<Rightarrow> promise) \<Rightarrow> nat \<Rightarrow> promise list \<Rightarrow> promise list \<Rightarrow> swarm_task list
     \<Rightarrow> (nat \<times> promise list \<times> promise list) completion" where
  "admitTasks cfg start now active started [] = Returns (now, active, started)"
| "admitTasks cfg start now active started (task # rest) =
     (if maxConcurrentAgents cfg \<le> length active then
        (case raceActive now active of
           None \<Rightarrow> Hangs
         | Some (now', winner) \<Rightarrow>
             (case settled winner of
                Inl e \<Rightarrow> Throws e
              | Inr completedTask \<Rightarrow>
                  admitTasks cfg start now'
                    (splice1 (findIndex (\<lambda>t. Some (p_id t) = result_id completedTask) active) active
                       @ [start now' task])
                    (started @ [start now' task]) rest))
      else
        admitTasks cfg start now (active @ [start now task]) (started @ [start now task]) rest)"

text \<open>\<^verbatim>\<open>results.set(key, value)\<close> on a \<^verbatim>\<open>Map\<close>, kept in insertion order.\<close>

fun mapSet :: "'k \<Rightarrow> 'v \<Rightarrow> ('k \<times> 'v) list \<Rightarrow> ('k \<times> 'v) list" where
  "mapSet k v [] = [(k, v)]"
| "mapSet k v ((k', v') # m) = (if k' = k then (k, v) # m else (k', v') # mapSet k v m)"

text \<open>
  The \<^verbatim>\<open>finalResults.forEach\<close>: fulfilled promises are stored under \<^verbatim>\<open>result.value.taskId\<close>,
  rejected ones are only logged.
\<close>

fun collectResults :: "(string \<times> task_result) list \<Rightarrow> promise list \<Rightarrow> (string \<times> task_result) list" where
  "collectResults results [] = results"
| "collectResults results (p # ps) =
     (case settled p of
        Inr v \<Rightarrow> collectResults (mapSet (taskId v) v results) ps
      | Inl e \<Rightarrow> collectResults results ps)"

text \<open>\<^verbatim>\<open>await Promise.allSettled(activeTasks)\<close> at time \<open>now\<close> resumes when the last one settles.\<close>

definition allSettledAt :: "nat \<Rightarrow> promise list \<Rightarrow> nat" where
  "allSettledAt now active = fold (\<lambda>p t. max (settlesAt p) t) active now"

text \<open>
  What \<^verbatim>\<open>executeSwarmTasks\<close> gives back: the returned \<^verbatim>\<open>Map\<close> and the time of the return,
  with the log of the promises it created.
\<close>

record execution =
  returned :: "(string \<times> task_result) list"
  returnedAt :: nat
  admitted :: "promise list"

definition executeSwarmTasks ::
  "config \<Rightarrow> swarm_state \<Rightarrow> (swarm_task \<Rightarrow> chat_call) \<Rightarrow> swarm_task list \<Rightarrow> execution completion" where
  "executeSwarmTasks cfg st backend tasks =
     (case admitTasks cfg (startTask cfg st backend) 0 [] [] (sortByPriority tasks) of
        Hangs \<Rightarrow> Hangs
      | Throws e \<Rightarrow> Throws e
      | Returns (now, active, started) \<Rightarrow>
          Returns \<lparr>returned = collectResults [] active,
                   returnedAt = allSettledAt now active,
                   admitted = started\<rparr>)"

text \<open>
  The tasks running at time \<open>t\<close>: started and not yet settled.
\<close>

definition inFlight :: "promise list \<Rightarrow> nat \<Rightarrow> promise list" where
  "inFlight started t = filter (\<lambda>p. startedAt p \<le> t \<and> t < settlesAt p) started"

section \<open>coordinateResults\<close>

text \<open>
  The object \<^verbatim>\<open>coordinateResults\<close> returns; a property that a branch does not set is \<open>None\<close>
  (the \<^verbatim>\<open>timestamp\<close> is left out).
\<close>

record coordinated =
  summary :: string
  recommendations :: "string list option"
  synthesisReasoning :: "string option"
  agentContributions :: "nat option"
  analysisTypes :: "string list option"
  confidence :: string
  coordinationNote :: "string option"

definition newline :: string where
  "newline = [CHR 0x0A]"

text \<open>
  \<^verbatim>\<open>String.prototype.toUpperCase\<close> is the engine's and maps the letters of every script;
  it is a parameter \<open>upper\<close> of what follows. On text of ASCII characters it is this
  function.
\<close>

definition asciiUpperChar :: "char \<Rightarrow> char" where
  "asciiUpperChar c =
     (case map_of (zip ''abcdefghijklmnopqrstuvwxyz'' ''ABCDEFGHIJKLMNOPQRSTUVWXYZ'') c of
        None \<Rightarrow> c
      | Some u \<Rightarrow> u)"

definition asciiUpperCase :: "string \<Rightarrow> string" where
  "asciiUpperCase s = map asciiUpperChar s"

text \<open>\<^verbatim>\<open>xs.join(sep)\<close>\<close>

fun join :: "string \<Rightarrow> string list \<Rightarrow> string" where
  "join sep [] = []"
| "join sep [x] = x"
| "join sep (x # y # ys) = x @ sep @ join sep (y # ys)"

text \<open>
  One entry of \<^verbatim>\<open>combinedAnalysis\<close>: the template
  \<^verbatim>\<open>**${r.type.toUpperCase()}**:\n${r.result}\<close>; a \<^verbatim>\<open>null\<close> result prints as \<^verbatim>\<open>null\<close>.
\<close>

definition labelled :: "(string \<Rightarrow> string) \<Rightarrow> task_result \<Rightarrow> string" where
  "labelled upper r =
     ''**'' @ upper (rtype r) @ ''**:'' @ newline @
     (case result r of None \<Rightarrow> ''null'' | Some text \<Rightarrow> text)"

definition combinedAnalysis :: "(string \<Rightarrow> string) \<Rightarrow> task_result list \<Rightarrow> string" where
  "combinedAnalysis upper successful = join (newline @ newline) (map (labelled upper) successful)"

definition coordinationPrompt :: "repository \<Rightarrow> string \<Rightarrow> string" where
  "coordinationPrompt r combined =
     ''As the swarm coordinator, synthesize these specialized analyses into a cohesive assessment:''
     @ newline @ newline @
     ''Repository: '' @ owner r @ ''/'' @ repo r @ newline @ newline @
     ''Individual Agent Results:'' @ newline @
     combined @ newline @ newline @
     ''Provide:'' @ newline @
     ''1. Executive Summary of overall repository health'' @ newline @
     ''2. Top 5 Priority Recommendations (ranked by impact)'' @ newline @
     ''3. Risk Assessment (high/medium/low)'' @ newline @
     ''4. Implementation Roadmap'' @ newline @
     ''5. Confidence Level in Analysis'' @ newline @ newline @
     ''Focus on actionable insights that combine multiple agent perspectives.''"

text \<open>The object returned when no result is successful.\<close>

definition degraded :: coordinated where
  "degraded =
     \<lparr>summary = ''Swarm analysis failed - no agents completed successfully'',
      recommendations = Some [], synthesisReasoning = None, agentContributions = None,
      analysisTypes = None, confidence = ''low'', coordinationNote = None\<rparr>"

text \<open>The object returned after the \<^verbatim>\<open>try\<close>: \<^verbatim>\<open>// Fallback: simple aggregation\<close>.\<close>

definition fallback :: "task_result list \<Rightarrow> coordinated" where
  "fallback successful =
     \<lparr>summary = ''Multiple specialized analyses completed. Individual agent results available.'',
      recommendations = None, synthesisReasoning = None,
      agentContributions = Some (length successful),
      analysisTypes = Some (map rtype successful),
      confidence = ''medium'',
      coordinationNote = Some ''Coordination synthesis failed, but individual analyses succeeded''\<rparr>"

text \<open>
  \<^verbatim>\<open>coordinateResults(results, repository)\<close>. \<open>coordinator prompt model\<close> is what
  \<^verbatim>\<open>this.wrapper.chat\<close> answers to the synthesis request; the call has no timer and is
  taken to settle. The second component lists the prompts sent to the wrapper, in order.
  A rejected call and the \<^verbatim>\<open>TypeError\<close> of a malformed answer are caught and logged, and
  an unsuccessful answer falls out of the \<^verbatim>\<open>if\<close>: all three reach the fallback.
\<close>

definition coordinateResults ::
  "config \<Rightarrow> (string \<Rightarrow> string) \<Rightarrow> (string \<Rightarrow> string \<Rightarrow> chat_response)
     \<Rightarrow> (string \<times> task_result) list \<Rightarrow> repository \<Rightarrow> coordinated \<times> string list" where
  "coordinateResults cfg upper coordinator results r =
     (let successful = filter success (map snd results) in
      if length successful = 0 then (degraded, [])
      else
        (let prompt = coordinationPrompt r (combinedAnalysis upper successful) in
         case coordinator prompt (coordinationModel cfg) of
           ChatSuccess content reason \<Rightarrow>
             (\<lparr>summary = content, recommendations = None, synthesisReasoning = Some reason,
               agentContributions = Some (length successful),
               analysisTypes = Some (map rtype successful),
               confidence = (if 4 \<le> length successful then ''high''
                             else if 2 \<le> length successful then ''medium'' else ''low''),
               coordinationNote = None\<rparr>, [prompt])
         | ChatFailure err \<Rightarrow> (fallback successful, [prompt])
         | ChatMalformed msg \<Rightarrow> (fallback successful, [prompt])
         | ChatReject msg \<Rightarrow> (fallback successful, [prompt])))"

section \<open>updateSwarmMetrics, calculateSwarmEfficiency, analyzeRepositorySwarm\<close>

text \<open>
  The quotients here are taken in double precision before \<^verbatim>\<open>Math.round\<close>. A positive
  double is a pair \<open>(m, e)\<close> standing for \<open>m * 2 ^ e\<close>, with \<open>m\<close> of 53 binary digits;
  zero is \<open>(0, 0)\<close>. The counts and times are natural numbers below \<open>2 ^ 53\<close>, for which
  no quotient leaves the normal range of doubles.
\<close>

type_synonym double = "nat \<times> int"

text \<open>The number of binary digits of a natural number.\<close>

fun bits :: "nat \<Rightarrow> nat" where
  "bits n = (if n = 0 then 0 else Suc (bits (n div 2)))"

declare bits.simps [simp del]

text \<open>\<open>2 ^ k \<le> p / q\<close>, for \<open>q > 0\<close>.\<close>

definition atLeastPow2 :: "nat \<Rightarrow> nat \<Rightarrow> int \<Rightarrow> bool" where
  "atLeastPow2 p q k = (if 0 \<le> k then q * 2 ^ nat k \<le> p else q \<le> p * 2 ^ nat (- k))"

text \<open>The \<open>k\<close> with \<open>2 ^ k \<le> p / q < 2 ^ (k + 1)\<close>, for \<open>p > 0\<close> and \<open>q > 0\<close>.\<close>

definition binaryExponent :: "nat \<Rightarrow> nat \<Rightarrow> int" where
  "binaryExponent p q =
     (let k = int (bits p) - int (bits q) in if atLeastPow2 p q k then k else k - 1)"

text \<open>The integer nearest to \<open>a / b\<close>, a tie going to the even one.\<close>

definition roundHalfEven :: "nat \<Rightarrow> nat \<Rightarrow> nat" where
  "roundHalfEven a b =
     (let q = a div b; r = a mod b in
      if 2 * r < b then q
      else if b < 2 * r then q + 1
      else if even q then q else q + 1)"

text \<open>The double nearest to \<open>p / q\<close> (round to nearest, ties to even), for \<open>q > 0\<close>.\<close>

definition toDouble :: "nat \<Rightarrow> nat \<Rightarrow> double" where
  "toDouble p q =
     (if p = 0 then (0, 0)
      else
        (let e = binaryExponent p q - 52 in
         (if e < 0 then roundHalfEven (p * 2 ^ nat (- e)) q
          else roundHalfEven p (q * 2 ^ nat e), e)))"

text \<open>The product \<open>x * n\<close> of a double and a natural number, in double precision.\<close>

definition timesDouble :: "double \<Rightarrow> nat \<Rightarrow> double" where
  "timesDouble x n =
     (case x of (m, e) \<Rightarrow>
        if 0 \<le> e then toDouble (m * n * 2 ^ nat e) 1 else toDouble (m * n) (2 ^ nat (- e)))"

text \<open>\<^verbatim>\<open>Math.round(x)\<close> for a double \<open>x \<ge> 0\<close>: the floor of \<open>x + 1/2\<close>, taken exactly.\<close>

definition mathRound :: "double \<Rightarrow> nat" where
  "mathRound x =
     (case x of (m, e) \<Rightarrow>
        if 0 \<le> e then m * 2 ^ nat e
        else (2 * m + 2 ^ nat (- e)) div 2 ^ Suc (nat (- e)))"

text \<open>\<^verbatim>\<open>Math.round(a / b)\<close> on natural numbers with \<open>b > 0\<close>.\<close>

definition roundDiv :: "nat \<Rightarrow> nat \<Rightarrow> nat" where
  "roundDiv a b = mathRound (toDouble a b)"

definition updateSwarmMetrics :: "swarm_metrics \<Rightarrow> (string \<times> task_result) list \<Rightarrow> swarm_metrics" where
  "updateSwarmMetrics m results =
     (let values = map snd results;
          completed = filter success values in
      m\<lparr>totalTasks := totalTasks m + length results,
        completedTasks := completedTasks m + length completed,
        failedTasks := failedTasks m + length (filter (\<lambda>r. \<not> success r) values),
        averageTaskTime :=
          (if 0 < length completed
           then roundDiv (sum_list (map executionTime completed)) (length completed)
           else averageTaskTime m)\<rparr>)"

text \<open>
  \<^verbatim>\<open>Math.round((completedTasks / totalTasks) * 100)\<close>: the quotient is rounded to a double,
  and so is its product with 100.
\<close>

definition calculateSwarmEfficiency :: "swarm_metrics \<Rightarrow> nat" where
  "calculateSwarmEfficiency m =
     (if totalTasks m = 0 then 100
      else mathRound (timesDouble (toDouble (completedTasks m) (totalTasks m)) 100))"

text \<open>
  The object \<^verbatim>\<open>analyzeRepositorySwarm\<close> returns, with the tasks it created and the prompts
  the coordinator sent. Of \<^verbatim>\<open>getSwarmMetrics()\<close> the four swarm totals, as
  \<^verbatim>\<open>updateSwarmMetrics\<close> leaves them, and the efficiency are kept. Its per-agent part is a
  snapshot of the agents and their efficiency entries, which each task changes when it
  terminates, as \<open>executeAgentTask\<close> describes; the run does not show it here.
\<close>

record swarm_run =
  run_repository :: string
  run_tasks :: "swarm_task list"
  swarmAnalysis :: coordinated
  individualResults :: "(string \<times> task_result) list"
  run_totalTasks :: nat
  run_completedTasks :: nat
  run_failedTasks :: nat
  run_averageTaskTime :: nat
  swarmEfficiency :: nat
  synthesisCalls :: "string list"

text \<open>
  \<^verbatim>\<open>analyzeRepositorySwarm(repository, analysisTypes = ['comprehensive'])\<close>: \<open>None\<close> is the
  omitted argument. It returns when \<open>executeSwarmTasks\<close> has returned and the synthesis
  call, if one is made, has settled.
\<close>

definition analyzeRepositorySwarm ::
  "config \<Rightarrow> swarm_state \<Rightarrow> (nat \<Rightarrow> string) \<Rightarrow> (string \<Rightarrow> string) \<Rightarrow> (swarm_task \<Rightarrow> chat_call)
     \<Rightarrow> (string \<Rightarrow> string \<Rightarrow> chat_response) \<Rightarrow> repository \<Rightarrow> string list option
     \<Rightarrow> swarm_run completion" where
  "analyzeRepositorySwarm cfg st stamp upper backend coordinator r requestedTypes =
     (let types = (case requestedTypes of None \<Rightarrow> [''comprehensive''] | Some ts \<Rightarrow> ts);
          swarmTasks = createSwarmTasks stamp r types in
      case executeSwarmTasks cfg st backend swarmTasks of
        Hangs \<Rightarrow> Hangs
      | Throws e \<Rightarrow> Throws e
      | Returns ex \<Rightarrow>
          (let co = coordinateResults cfg upper coordinator (returned ex) r;
               m = updateSwarmMetrics (swarmMetrics st) (returned ex) in
           Returns \<lparr>run_repository = owner r @ ''/'' @ repo r,
                    run_tasks = swarmTasks,
                    swarmAnalysis = fst co,
                    individualResults = returned ex,
                    run_totalTasks = totalTasks m,
                    run_completedTasks = completedTasks m,
                    run_failedTasks = failedTasks m,
                    run_averageTaskTime = averageTaskTime m,
                    swarmEfficiency = calculateSwarmEfficiency m,
                    synthesisCalls = snd co\<rparr>))"

section \<open>resetSwarm\<close>

text \<open>
  \<^verbatim>\<open>resetSwarm()\<close> resets every agent and replaces \<^verbatim>\<open>this.swarmMetrics\<close>. The loop that
  should refill \<^verbatim>\<open>agentEfficiency\<close> runs over \<^verbatim>\<open>Object.keys(this.agents.keys())\<close>, the own
  property names of an iterator object, of which there are none: the table stays empty.
\<close>

definition resetSwarm :: "swarm_state \<Rightarrow> swarm_state" where
  "resetSwarm st =
     \<lparr>agents =
        (\<lambda>a. map_option
           (\<lambda>ag. ag\<lparr>status := Idle, tasksCompleted := 0, averageResponseTime := 0,
                    successRate := 100\<rparr>)
           (agents st a)),
      swarmMetrics =
        \<lparr>totalTasks = 0, completedTasks = 0, failedTasks = 0, averageTaskTime = 0,
         agentEfficiency = Map.empty\<rparr>\<rparr>"

section \<open>The success rate as the specification words it\<close>

text \<open>
  The specification's formula for \<open>successRatePercent\<close>, from its counts of completed and
  failed tasks: \<open>tasksCompleted / (tasksCompleted + tasksFailed) * 100\<close>, and \<open>100\<close> when no
  task has run. The class keeps no count of failed tasks.
\<close>

definition spec_successRatePercent :: "nat \<Rightarrow> nat \<Rightarrow> real" where
  "spec_successRatePercent completed failed =
     (if completed + failed = 0 then 100
      else real completed / real (completed + failed) * 100)"

section \<open>Sample inputs\<close>

definition sampleRepository :: repository where
  "sampleRepository = \<lparr>owner = ''acme'', repo = ''demo''\<rparr>"

text \<open>A task for the architect agent, as \<open>createSwarmTasks\<close> builds it, under a chosen id.\<close>

definition sampleTask :: "string \<Rightarrow> swarm_task" where
  "sampleTask i =
     mkTask i ''architect'' ''architecture-analysis'' sampleRepository High
       ''Analyze system architecture and design patterns''"

text \<open>A chat call that succeeds after \<open>ms\<close> milliseconds.\<close>

definition answers :: "nat \<Rightarrow> chat_call" where
  "answers ms = \<lparr>response = ChatSuccess ''fine'' ''because'', latency = ms\<rparr>"

text \<open>A backend that answers task \<open>a\<close> after 10 ms and every other task after one second.\<close>

definition quickFirst :: "swarm_task \<Rightarrow> chat_call" where
  "quickFirst t = answers (if task_id t = ''a'' then 10 else 1000)"

text \<open>A backend that answers task \<open>b\<close> after one second and every other task after 10 ms.\<close>

definition slowSecond :: "swarm_task \<Rightarrow> chat_call" where
  "slowSecond t = answers (if task_id t = ''b'' then 1000 else 10)"

text \<open>The default configuration with \<^verbatim>\<open>maxConcurrentAgents: 2\<close>.\<close>

definition twoAtOnce :: config where
  "twoAtOnce = defaultConfig\<lparr>maxConcurrentAgents := 2\<rparr>"

definition sampleResult :: "string \<Rightarrow> bool \<Rightarrow> task_result" where
  "sampleResult i ok =
     \<lparr>taskId = i, agentId = ''architect'', rtype = ''architecture-analysis'', success = ok,
      result = (if ok then Some ''fine'' else None),
      reasoning = (if ok then Some ''because'' else None),
      error = (if ok then None else Some ''unavailable''), executionTime = 10\<rparr>"

text \<open>Six results, five of them successful.\<close>

definition fiveOfSix :: "(string \<times> task_result) list" where
  "fiveOfSix =
     [(''t1'', sampleResult ''t1'' True), (''t2'', sampleResult ''t2'' True),
      (''t3'', sampleResult ''t3'' False), (''t4'', sampleResult ''t4'' True),
      (''t5'', sampleResult ''t5'' True), (''t6'', sampleResult ''t6'' True)]"

definition synthesisWorks :: "string \<Rightarrow> string \<Rightarrow> chat_response" where
  "synthesisWorks prompt m = ChatSuccess ''healthy'' ''all agents agree''"

definition synthesisDown :: "string \<Rightarrow> string \<Rightarrow> chat_response" where
  "synthesisDown prompt m = ChatFailure ''unavailable''"

text \<open>A chat call that resolves with \<^verbatim>\<open>{success: false, error: 'unavailable'}\<close> after \<open>ms\<close> milliseconds.\<close>

definition refuses :: "nat \<Rightarrow> chat_call" where
  "refuses ms = \<lparr>response = ChatFailure ''unavailable'', latency = ms\<rparr>"


text \<open>The default configuration with \<^verbatim>\<open>taskTimeout: 0\<close>.\<close>

definition noTimeout :: config where
  "noTimeout = defaultConfig\<lparr>taskTimeout := 0\<rparr>"

section \<open>Facts about executeAgentTask\<close>

lemma roundHalf_round: "int (roundHalf a e) = round ((real a + real e) / 2)"
proof -
  have eq: "(real a + real e) / 2 + 1 / 2 = real (a + e + 1) / real 2"
    by (simp add: field_simps)
  have "round ((real a + real e) / 2) = \<lfloor>real (a + e + 1) / real 2\<rfloor>"
    by (simp only: round_def eq)
  also have "\<dots> = int ((a + e + 1) div 2)"
    by (rule floor_divide_of_nat_eq)
  finally show ?thesis
    by (simp add: roundHalf_def)
qed

lemma initial_agent:
  "agents initializeAgents a = Some ag \<Longrightarrow>
     tasksCompleted ag = 0 \<and> averageResponseTime ag = 0 \<and> successRate ag = 100 \<and> status ag = Idle"
  by (auto simp: initializeAgents_def agentDefinitions_def newAgent_def split: if_splits)

lemma initial_architect:
  "agents initializeAgents ''architect'' = Some (newAgent ''architect'' ''x-ai/grok-code-fast-1'')"
  "agentEfficiency (swarmMetrics initializeAgents) ''architect'' = Some newEfficiency"
  by (simp_all add: initializeAgents_def agentDefinitions_def)

text \<open>The ways out of \<open>executeAgentTask\<close> for a registered agent with its efficiency entry.\<close>

lemma executeAgentTask_timeout:
  assumes "agents st (task_agentId task) = Some ag"
      and "agentEfficiency (swarmMetrics st) (task_agentId task) = Some e"
      and "timedOut cfg call"
  shows "executeAgentTask cfg st task call =
           (setEfficiency (setAgent st (task_agentId task) (ag\<lparr>status := Idle\<rparr>)) (task_agentId task)
              (e\<lparr>tasksAssigned := tasksAssigned e + 1\<rparr>),
            Inr \<lparr>taskId = task_id task, agentId = task_agentId task, rtype = task_type task,
                 success = False, result = None, reasoning = None, error = Some ''Task timeout'',
                 executionTime = timerDelay (taskTimeout cfg)\<rparr>)"
  using assms
  by (simp add: executeAgentTask_def catchBlock_def setAgent_def setEfficiency_def elapsed_def Let_def)

lemma executeAgentTask_reject:
  assumes "agents st (task_agentId task) = Some ag"
      and "agentEfficiency (swarmMetrics st) (task_agentId task) = Some e"
      and "\<not> timedOut cfg call" and "response call = ChatReject msg"
  shows "executeAgentTask cfg st task call =
           (setEfficiency (setAgent st (task_agentId task) (ag\<lparr>status := Idle\<rparr>)) (task_agentId task)
              (e\<lparr>tasksAssigned := tasksAssigned e + 1\<rparr>),
            Inr \<lparr>taskId = task_id task, agentId = task_agentId task, rtype = task_type task,
                 success = False, result = None, reasoning = None, error = Some msg,
                 executionTime = latency call\<rparr>)"
  using assms
  by (simp add: executeAgentTask_def catchBlock_def setAgent_def setEfficiency_def elapsed_def Let_def)

lemma executeAgentTask_success:
  assumes "agents st (task_agentId task) = Some ag"
      and "agentEfficiency (swarmMetrics st) (task_agentId task) = Some e"
      and "\<not> timedOut cfg call" and "response call = ChatSuccess content reason"
  shows "executeAgentTask cfg st task call =
           (setEfficiency
              (setAgent st (task_agentId task)
                 (ag\<lparr>tasksCompleted := tasksCompleted ag + 1,
                     averageResponseTime := roundHalf (averageResponseTime ag) (latency call),
                     status := Idle\<rparr>))
              (task_agentId task)
              (e\<lparr>eff_tasksCompleted := eff_tasksCompleted e + 1,
                 averageTime := roundHalf (averageTime e) (latency call)\<rparr>),
            Inr \<lparr>taskId = task_id task, agentId = task_agentId task, rtype = task_type task,
                 success = True, result = Some content, reasoning = Some reason, error = None,
                 executionTime = latency call\<rparr>)"
  using assms
  by (simp add: executeAgentTask_def tryBlock_def setAgent_def setEfficiency_def elapsed_def Let_def)

lemma executeAgentTask_failure:
  assumes "agents st (task_agentId task) = Some ag"
      and "agentEfficiency (swarmMetrics st) (task_agentId task) = Some e"
      and "\<not> timedOut cfg call" and "response call = ChatFailure err"
  shows "executeAgentTask cfg st task call =
           (setEfficiency
              (setAgent st (task_agentId task)
                 (ag\<lparr>tasksCompleted := tasksCompleted ag + 1,
                     averageResponseTime := roundHalf (averageResponseTime ag) (latency call),
                     status := Idle\<rparr>))
              (task_agentId task)
              (e\<lparr>eff_tasksCompleted := eff_tasksCompleted e + 1,
                 averageTime := roundHalf (averageTime e) (latency call)\<rparr>),
            Inr \<lparr>taskId = task_id task, agentId = task_agentId task, rtype = task_type task,
                 success = False, result = None, reasoning = None, error = Some err,
                 executionTime = latency call\<rparr>)"
  using assms
  by (simp add: executeAgentTask_def tryBlock_def setAgent_def setEfficiency_def elapsed_def Let_def)

lemma executeAgentTask_malformed:
  assumes "agents st (task_agentId task) = Some ag"
      and "agentEfficiency (swarmMetrics st) (task_agentId task) = Some e"
      and "\<not> timedOut cfg call" and "response call = ChatMalformed msg"
  shows "executeAgentTask cfg st task call =
           (setEfficiency
              (setAgent st (task_agentId task)
                 (ag\<lparr>tasksCompleted := tasksCompleted ag + 1,
                     averageResponseTime := roundHalf (averageResponseTime ag) (latency call),
                     status := Idle\<rparr>))
              (task_agentId task)
              (e\<lparr>eff_tasksCompleted := eff_tasksCompleted e + 1,
                 averageTime := roundHalf (averageTime e) (latency call),
                 tasksAssigned := tasksAssigned e + 1\<rparr>),
            Inr \<lparr>taskId = task_id task, agentId = task_agentId task, rtype = task_type task,
                 success = False, result = None, reasoning = None, error = Some msg,
                 executionTime = latency call\<rparr>)"
  using assms
  by (simp add: executeAgentTask_def tryBlock_def catchBlock_def setAgent_def setEfficiency_def
      elapsed_def Let_def)

lemma executeAgentTask_unknown:
  "agents st (task_agentId task) = None \<Longrightarrow>
     executeAgentTask cfg st task call =
       (st, Inl (Error (''Agent '' @ task_agentId task @ '' not found'')))"
  by (simp add: executeAgentTask_def)

lemma executeAgentTask_successRate:
  "map_option successRate (agents (fst (executeAgentTask cfg st task call)) a) =
   map_option successRate (agents st a)"
  by (auto simp: executeAgentTask_def tryBlock_def catchBlock_def setAgent_def setEfficiency_def Let_def
      split: option.splits chat_response.splits sum.splits)

lemma executeAgentTask_eff_successRate:
  "map_option eff_successRate (agentEfficiency (swarmMetrics (fst (executeAgentTask cfg st task call))) a) =
   map_option eff_successRate (agentEfficiency (swarmMetrics st) a)"
  by (auto simp: executeAgentTask_def tryBlock_def catchBlock_def setAgent_def setEfficiency_def Let_def
      split: option.splits chat_response.splits sum.splits)

text \<open>
  No task adds or removes an agent or an efficiency entry, and what \<open>executeAgentTask\<close>
  returns depends on the state only through the entries that exist: \<open>startTask\<close> may read
  the result off the state at the call of \<open>executeSwarmTasks\<close>.
\<close>

lemma executeAgentTask_dom:
  "dom (agents (fst (executeAgentTask cfg st task call))) = dom (agents st)"
  "dom (agentEfficiency (swarmMetrics (fst (executeAgentTask cfg st task call)))) =
   dom (agentEfficiency (swarmMetrics st))"
  by (auto simp: executeAgentTask_def tryBlock_def catchBlock_def setAgent_def setEfficiency_def Let_def
      split: option.splits chat_response.splits sum.splits if_splits)

lemma executeAgentTask_result_state:
  assumes "dom (agents st') = dom (agents st)"
      and "dom (agentEfficiency (swarmMetrics st')) = dom (agentEfficiency (swarmMetrics st))"
  shows "snd (executeAgentTask cfg st' task call) = snd (executeAgentTask cfg st task call)"
proof -
  have a: "(agents st' (task_agentId task) = None) = (agents st (task_agentId task) = None)"
    using assms(1) by (metis domIff)
  have b: "(agentEfficiency (swarmMetrics st') (task_agentId task) = None) =
           (agentEfficiency (swarmMetrics st) (task_agentId task) = None)"
    using assms(2) by (metis domIff)
  show ?thesis
    using a b
    by (auto simp: executeAgentTask_def tryBlock_def catchBlock_def setAgent_def setEfficiency_def Let_def
        split: option.splits chat_response.splits sum.splits)
qed

text \<open>The sample task on the state the constructor leaves.\<close>

lemma sampleTask_fields:
  "task_id (sampleTask i) = i" "task_agentId (sampleTask i) = ''architect''"
  "task_type (sampleTask i) = ''architecture-analysis''" "task_priority (sampleTask i) = High"
  by (simp_all add: sampleTask_def mkTask_def)

lemma default_timeout: "taskTimeout defaultConfig = 120000" "taskTimeout twoAtOnce = 120000"
  "maxConcurrentAgents twoAtOnce = 2"
  by (simp_all add: defaultConfig_def twoAtOnce_def)

lemma answers_fields:
  "response (answers n) = ChatSuccess ''fine'' ''because''" "latency (answers n) = n"
  by (simp_all add: answers_def)

lemma default_delay: "timerDelay (taskTimeout defaultConfig) = 120000"
  "timerDelay (taskTimeout twoAtOnce) = 120000"
  by (simp_all add: timerDelay_def defaultConfig_def twoAtOnce_def)

lemma answers_in_time: "n \<le> 120000 \<Longrightarrow> \<not> timedOut defaultConfig (answers n)"
  by (simp add: timedOut_def answers_def default_delay)

lemma answers_late: "120000 < n \<Longrightarrow> timedOut defaultConfig (answers n)"
  by (simp add: timedOut_def answers_def default_delay)








text \<open>
  After \<open>resetSwarm\<close> no agent has an efficiency entry, and every task of a registered
  agent ends in a \<^verbatim>\<open>TypeError\<close>: the entry is what the facts above assume.
\<close>

lemma executeAgentTask_after_reset:
  assumes "agents st (task_agentId task) = Some ag"
  shows "snd (executeAgentTask cfg (resetSwarm st) task call) = Inl TypeError"
  using assms
  by (auto simp: executeAgentTask_def tryBlock_def catchBlock_def setAgent_def resetSwarm_def Let_def
      split: chat_response.splits sum.splits)

section \<open>Claims about executeAgentTask\<close>

text \<open>
  Claim C10. For every agent, each successful task execution replaces
  \<open>averageResponseTime\<close> by \<open>round((previous average + execution time) / 2)\<close>, and the
  average starts at \<open>0\<close>: the stored value blends the previous average with the latest
  execution time and is not the arithmetic mean of the observations.
\<close>

theorem averageResponseTime_recurrence:
  assumes "agents st (task_agentId task) = Some ag"
      and "agentEfficiency (swarmMetrics st) (task_agentId task) = Some e"
      and "\<not> timedOut cfg call"
      and "response call = ChatSuccess content reason"
  shows "(\<forall>a g. agents initializeAgents a = Some g \<longrightarrow> averageResponseTime g = 0) \<and>
         snd (executeAgentTask cfg st task call) =
           Inr \<lparr>taskId = task_id task, agentId = task_agentId task, rtype = task_type task,
                success = True, result = Some content, reasoning = Some reason, error = None,
                executionTime = latency call\<rparr> \<and>
         map_option (\<lambda>g. int (averageResponseTime g))
             (agents (fst (executeAgentTask cfg st task call)) (task_agentId task)) =
           Some (round ((real (averageResponseTime ag) + real (latency call)) / 2))"
proof (intro conjI)
  show "\<forall>a g. agents initializeAgents a = Some g \<longrightarrow> averageResponseTime g = 0"
    using initial_agent by blast
  show "snd (executeAgentTask cfg st task call) =
           Inr \<lparr>taskId = task_id task, agentId = task_agentId task, rtype = task_type task,
                success = True, result = Some content, reasoning = Some reason, error = None,
                executionTime = latency call\<rparr>"
    by (simp add: executeAgentTask_success [OF assms])
  show "map_option (\<lambda>g. int (averageResponseTime g))
             (agents (fst (executeAgentTask cfg st task call)) (task_agentId task)) =
           Some (round ((real (averageResponseTime ag) + real (latency call)) / 2))"
    by (simp add: executeAgentTask_success [OF assms] setAgent_def setEfficiency_def
        roundHalf_round)
qed

text \<open>
  After answers taking 100, 200 and 600 ms the stored average is 363, while the mean of
  the three is 300.
\<close>

theorem averageResponseTime_recurrence_witness:
  "map_option (\<lambda>g. int (averageResponseTime g))
     (agents (fst (executeAgentTask defaultConfig initializeAgents (sampleTask ''a'') (answers 100)))
        ''architect'') = Some 50 \<and>
   map_option averageResponseTime
     (agents
        (fst (executeAgentTask defaultConfig
           (fst (executeAgentTask defaultConfig
              (fst (executeAgentTask defaultConfig initializeAgents (sampleTask ''a'') (answers 100)))
              (sampleTask ''b'') (answers 200)))
           (sampleTask ''c'') (answers 600)))
        ''architect'') = Some 363 \<and>
   (100 + 200 + 600) div 3 = (300 :: nat)"
proof -
  have one: "map_option (\<lambda>g. int (averageResponseTime g))
     (agents (fst (executeAgentTask defaultConfig initializeAgents (sampleTask ''a'') (answers 100)))
        ''architect'') = Some 50"
    using averageResponseTime_recurrence [of initializeAgents "sampleTask ''a''"
        "newAgent ''architect'' ''x-ai/grok-code-fast-1''" newEfficiency defaultConfig "answers 100"
        "''fine''" "''because''"]
    by (simp add: sampleTask_fields initial_architect answers_in_time answers_fields newAgent_def)
  have s1: "executeAgentTask defaultConfig st (sampleTask i) (answers n) =
      (setEfficiency
         (setAgent st ''architect''
            (ag\<lparr>tasksCompleted := tasksCompleted ag + 1,
                averageResponseTime := roundHalf (averageResponseTime ag) n,
                status := Idle\<rparr>))
         ''architect''
         (e\<lparr>eff_tasksCompleted := eff_tasksCompleted e + 1,
            averageTime := roundHalf (averageTime e) n\<rparr>),
       Inr \<lparr>taskId = i, agentId = ''architect'', rtype = ''architecture-analysis'',
            success = True, result = Some ''fine'', reasoning = Some ''because'', error = None,
            executionTime = n\<rparr>)"
    if "agents st ''architect'' = Some ag" "agentEfficiency (swarmMetrics st) ''architect'' = Some e"
       "n \<le> 120000" for st i n ag e
    using executeAgentTask_success [of st "sampleTask i" ag e defaultConfig "answers n" "''fine''" "''because''"]
      that
    by (simp add: sampleTask_fields answers_in_time answers_fields)
  have three: "map_option averageResponseTime
     (agents
        (fst (executeAgentTask defaultConfig
           (fst (executeAgentTask defaultConfig
              (fst (executeAgentTask defaultConfig initializeAgents (sampleTask ''a'') (answers 100)))
              (sampleTask ''b'') (answers 200)))
           (sampleTask ''c'') (answers 600)))
        ''architect'') = Some 363"
    by (simp add: s1 [where e = newEfficiency] initial_architect)
       (simp add: s1 setAgent_def setEfficiency_def roundHalf_def newAgent_def)
  show ?thesis
    using one three by simp
qed

text \<open>
  Claim C4, as the code has it. For a registered agent with its efficiency entry, a task
  whose chat call is still pending when the timer fires (after \<open>taskTimeout\<close> ms, or after
  1 ms when \<open>taskTimeout\<close> is below 1 or above \<open>2147483647\<close>) yields a result with
  \<open>success = false\<close> and the error message \<open>Task timeout\<close>, produced before the call
  settles and the same whatever the call would have answered. The result has no error
  kind beside the message: it differs from the result of a failed call whenever the
  message of that failure is not itself \<open>Task timeout\<close>.
\<close>

theorem executeAgentTask_timeout_result:
  assumes "agents st (task_agentId task) = Some ag"
      and "agentEfficiency (swarmMetrics st) (task_agentId task) = Some e"
      and "timedOut cfg call"
  shows "(\<exists>r. snd (executeAgentTask cfg st task call) = Inr r \<and>
              taskId r = task_id task \<and> agentId r = task_agentId task \<and>
              \<not> success r \<and> result r = None \<and> error r = Some ''Task timeout'' \<and>
              executionTime r < latency call) \<and>
         snd (executeAgentTask cfg st task (call\<lparr>response := answer\<rparr>)) =
           snd (executeAgentTask cfg st task call) \<and>
         (\<not> timedOut cfg other \<and>
          (response other = ChatReject msg \<or> response other = ChatFailure msg \<or>
           response other = ChatMalformed msg) \<and>
          msg \<noteq> ''Task timeout'' \<longrightarrow>
            snd (executeAgentTask cfg st task other) \<noteq> snd (executeAgentTask cfg st task call))"
proof (intro conjI impI)
  have timeout: "snd (executeAgentTask cfg st task call) =
           Inr \<lparr>taskId = task_id task, agentId = task_agentId task, rtype = task_type task,
                success = False, result = None, reasoning = None, error = Some ''Task timeout'',
                executionTime = timerDelay (taskTimeout cfg)\<rparr>"
    by (simp add: executeAgentTask_timeout [OF assms])
  have "timerDelay (taskTimeout cfg) < latency call"
    using assms(3) by (simp add: timedOut_def)
  then show "\<exists>r. snd (executeAgentTask cfg st task call) = Inr r \<and>
              taskId r = task_id task \<and> agentId r = task_agentId task \<and>
              \<not> success r \<and> result r = None \<and> error r = Some ''Task timeout'' \<and>
              executionTime r < latency call"
    using timeout by simp
  have "timedOut cfg (call\<lparr>response := answer\<rparr>)"
    using assms(3) by (simp add: timedOut_def)
  from executeAgentTask_timeout [OF assms(1,2) this]
  show "snd (executeAgentTask cfg st task (call\<lparr>response := answer\<rparr>)) =
           snd (executeAgentTask cfg st task call)"
    using timeout by simp
  assume other: "\<not> timedOut cfg other \<and>
    (response other = ChatReject msg \<or> response other = ChatFailure msg \<or>
     response other = ChatMalformed msg) \<and> msg \<noteq> ''Task timeout''"
  then have "\<exists>r. snd (executeAgentTask cfg st task other) = Inr r \<and> error r = Some msg"
    using executeAgentTask_reject [OF assms(1,2), of cfg other msg]
      executeAgentTask_failure [OF assms(1,2), of cfg other msg]
      executeAgentTask_malformed [OF assms(1,2), of cfg other msg]
    by auto
  then show "snd (executeAgentTask cfg st task other) \<noteq> snd (executeAgentTask cfg st task call)"
    using other timeout by auto
qed

theorem executeAgentTask_timeout_result_witness:
  "(\<exists>r. snd (executeAgentTask defaultConfig initializeAgents (sampleTask ''a'') (answers 200000)) =
          Inr r \<and>
        taskId r = ''a'' \<and> agentId r = ''architect'' \<and> \<not> success r \<and> result r = None \<and>
        error r = Some ''Task timeout'' \<and> executionTime r < 200000) \<and>
   snd (executeAgentTask defaultConfig initializeAgents (sampleTask ''a'') (refuses 200000)) =
     snd (executeAgentTask defaultConfig initializeAgents (sampleTask ''a'') (answers 200000)) \<and>
   snd (executeAgentTask defaultConfig initializeAgents (sampleTask ''a'')
          \<lparr>response = ChatReject ''socket hang up'', latency = 5\<rparr>) \<noteq>
   snd (executeAgentTask defaultConfig initializeAgents (sampleTask ''a'') (answers 200000))"
proof -
  have swap: "(answers 200000)\<lparr>response := ChatFailure ''unavailable''\<rparr> = refuses 200000"
    by (simp add: answers_def refuses_def)
  have quick: "\<not> timedOut defaultConfig \<lparr>response = ChatReject ''socket hang up'', latency = 5\<rparr>"
    by (simp add: timedOut_def default_delay)
  show ?thesis
    using executeAgentTask_timeout_result [of initializeAgents "sampleTask ''a''"
        "newAgent ''architect'' ''x-ai/grok-code-fast-1''" newEfficiency defaultConfig
        "answers 200000" "ChatFailure ''unavailable''"
        "\<lparr>response = ChatReject ''socket hang up'', latency = 5\<rparr>" "''socket hang up''"]
      quick
    by (simp add: sampleTask_fields initial_architect answers_late answers_fields swap)
qed

text \<open>
  Claim C4 as stated fails twice. A chat call that is rejected after 5 ms with the
  message \<open>Task timeout\<close> gives the same \<open>success\<close> and \<open>error\<close> as a call that timed out.
  And with \<^verbatim>\<open>taskTimeout: 0\<close> the timer runs for 1 ms: a call that answers after 1 ms takes
  longer than the time-out and yields the successful result.
\<close>

theorem executeAgentTask_timeout_counterexample:
  "snd (executeAgentTask defaultConfig initializeAgents (sampleTask ''a'') (answers 200000)) =
     Inr \<lparr>taskId = ''a'', agentId = ''architect'', rtype = ''architecture-analysis'',
          success = False, result = None, reasoning = None, error = Some ''Task timeout'',
          executionTime = 120000\<rparr> \<and>
   snd (executeAgentTask defaultConfig initializeAgents (sampleTask ''a'')
          \<lparr>response = ChatReject ''Task timeout'', latency = 5\<rparr>) =
     Inr \<lparr>taskId = ''a'', agentId = ''architect'', rtype = ''architecture-analysis'',
          success = False, result = None, reasoning = None, error = Some ''Task timeout'',
          executionTime = 5\<rparr> \<and>
   taskTimeout noTimeout < latency (answers 1) \<and>
   snd (executeAgentTask noTimeout initializeAgents (sampleTask ''a'') (answers 1)) =
     Inr \<lparr>taskId = ''a'', agentId = ''architect'', rtype = ''architecture-analysis'',
          success = True, result = Some ''fine'', reasoning = Some ''because'', error = None,
          executionTime = 1\<rparr>"
proof -
  have slow: "timedOut defaultConfig (answers 200000)"
    by (simp add: answers_late)
  have fast: "\<not> timedOut defaultConfig \<lparr>response = ChatReject ''Task timeout'', latency = 5\<rparr>"
    by (simp add: timedOut_def default_delay)
  have zero: "\<not> timedOut noTimeout (answers 1)" "taskTimeout noTimeout < latency (answers 1)"
    by (simp_all add: timedOut_def timerDelay_def noTimeout_def answers_fields)
  show ?thesis
    using executeAgentTask_timeout [of initializeAgents "sampleTask ''a''"
        "newAgent ''architect'' ''x-ai/grok-code-fast-1''" newEfficiency defaultConfig
        "answers 200000"]
      executeAgentTask_reject [of initializeAgents "sampleTask ''a''"
        "newAgent ''architect'' ''x-ai/grok-code-fast-1''" newEfficiency defaultConfig
        "\<lparr>response = ChatReject ''Task timeout'', latency = 5\<rparr>" "''Task timeout''"]
      executeAgentTask_success [of initializeAgents "sampleTask ''a''"
        "newAgent ''architect'' ''x-ai/grok-code-fast-1''" newEfficiency noTimeout
        "answers 1" "''fine''" "''because''"]
      slow fast zero
    by (simp add: sampleTask_fields initial_architect default_delay answers_fields)
qed

text \<open>
  Claim C7, as the code has it. \<open>initializeAgents\<close> sets every agent's \<open>successRate\<close> to
  \<open>100\<close>, and \<open>executeAgentTask\<close> never writes it, whatever the outcome of the task: the
  stored rate of an agent, and that of its efficiency entry, stay what they were; in
  particular the rate is \<open>100\<close> for an agent that has run no task.
\<close>

theorem successRate_never_recomputed:
  "(\<forall>a g. agents initializeAgents a = Some g \<longrightarrow> successRate g = 100) \<and>
   map_option successRate (agents (fst (executeAgentTask cfg st task call)) a) =
     map_option successRate (agents st a) \<and>
   map_option eff_successRate
       (agentEfficiency (swarmMetrics (fst (executeAgentTask cfg st task call))) a) =
     map_option eff_successRate (agentEfficiency (swarmMetrics st) a)"
  using initial_agent executeAgentTask_successRate executeAgentTask_eff_successRate
  by blast

theorem successRate_never_recomputed_witness:
  "map_option successRate (agents initializeAgents ''architect'') = Some 100 \<and>
   map_option successRate
     (agents (fst (executeAgentTask defaultConfig initializeAgents (sampleTask ''a'') (refuses 10)))
        ''architect'') = Some 100"
proof -
  have "successRate (newAgent ''architect'' ''x-ai/grok-code-fast-1'') = 100"
    using successRate_never_recomputed [of defaultConfig initializeAgents "sampleTask ''a''"
        "refuses 10" "''architect''"] initial_architect(1)
    by blast
  then show ?thesis
    using successRate_never_recomputed [of defaultConfig initializeAgents "sampleTask ''a''"
        "refuses 10" "''architect''"]
    by (simp add: initial_architect)
qed

text \<open>
  Claim C7 as stated fails: after one task that timed out the architect has completed no
  task and failed one, for which the specification's formula gives \<open>0\<close>, and its stored
  rate is \<open>100\<close>.
\<close>

theorem successRate_counterexample:
  "snd (executeAgentTask defaultConfig initializeAgents (sampleTask ''a'') (answers 200000)) =
     Inr \<lparr>taskId = ''a'', agentId = ''architect'', rtype = ''architecture-analysis'',
          success = False, result = None, reasoning = None, error = Some ''Task timeout'',
          executionTime = 120000\<rparr> \<and>
   map_option tasksCompleted
     (agents (fst (executeAgentTask defaultConfig initializeAgents (sampleTask ''a'') (answers 200000)))
        ''architect'') = Some 0 \<and>
   map_option successRate
     (agents (fst (executeAgentTask defaultConfig initializeAgents (sampleTask ''a'') (answers 200000)))
        ''architect'') = Some 100 \<and>
   spec_successRatePercent 0 1 = 0"
  using executeAgentTask_timeout [of initializeAgents "sampleTask ''a''"
      "newAgent ''architect'' ''x-ai/grok-code-fast-1''" newEfficiency defaultConfig
      "answers 200000"]
  by (simp add: sampleTask_fields initial_architect answers_late default_delay
      setAgent_def setEfficiency_def newAgent_def spec_successRatePercent_def)




section \<open>Claims about coordinateResults\<close>

lemma coordinateResults_none:
  "filter success (map snd results) = [] \<Longrightarrow>
     coordinateResults cfg upper coordinator results r = (degraded, [])"
  by (simp add: coordinateResults_def)

lemma coordinateResults_synthesized:
  assumes "filter success (map snd results) = successful" and "successful \<noteq> []"
      and "coordinator (coordinationPrompt r (combinedAnalysis upper successful)) (coordinationModel cfg) =
             ChatSuccess content reason"
  shows "coordinateResults cfg upper coordinator results r =
           (\<lparr>summary = content, recommendations = None, synthesisReasoning = Some reason,
             agentContributions = Some (length successful),
             analysisTypes = Some (map rtype successful),
             confidence = (if 4 \<le> length successful then ''high''
                           else if 2 \<le> length successful then ''medium'' else ''low''),
             coordinationNote = None\<rparr>,
            [coordinationPrompt r (combinedAnalysis upper successful)])"
  using assms by (simp add: coordinateResults_def Let_def)

lemma coordinateResults_fallback:
  assumes "filter success (map snd results) = successful" and "successful \<noteq> []"
      and "coordinator (coordinationPrompt r (combinedAnalysis upper successful)) (coordinationModel cfg) =
             ChatFailure msg \<or>
           coordinator (coordinationPrompt r (combinedAnalysis upper successful)) (coordinationModel cfg) =
             ChatMalformed msg \<or>
           coordinator (coordinationPrompt r (combinedAnalysis upper successful)) (coordinationModel cfg) =
             ChatReject msg"
  shows "coordinateResults cfg upper coordinator results r =
           (fallback successful, [coordinationPrompt r (combinedAnalysis upper successful)])"
  using assms by (auto simp: coordinateResults_def Let_def)

lemma fiveOfSix_successful:
  "filter success (map snd fiveOfSix) =
     [sampleResult ''t1'' True, sampleResult ''t2'' True, sampleResult ''t4'' True,
      sampleResult ''t5'' True, sampleResult ''t6'' True]"
  by (simp add: fiveOfSix_def sampleResult_def)

text \<open>
  Claim C2, as the code has it. The confidence is \<open>low\<close> when no task succeeded. With at
  least one success it depends on the synthesis call: when that call succeeds the
  confidence is \<open>high\<close> for at least 4 successes, \<open>medium\<close> for 2 or 3 and \<open>low\<close> for 1,
  whichever tasks they are; when it fails, is malformed or is rejected the confidence is
  \<open>medium\<close> whatever the number of successes. In particular 6 tasks with 5 successes give \<open>high\<close>
  when the synthesis call succeeds.
\<close>

theorem coordinateResults_confidence:
  assumes "filter success (map snd results) = successful"
  shows "(successful = [] \<longrightarrow>
            confidence (fst (coordinateResults cfg upper coordinator results r)) = ''low'') \<and>
         (successful \<noteq> [] \<and>
          coordinator (coordinationPrompt r (combinedAnalysis upper successful)) (coordinationModel cfg) =
            ChatSuccess content reason \<longrightarrow>
            confidence (fst (coordinateResults cfg upper coordinator results r)) =
              (if 4 \<le> length successful then ''high''
               else if 2 \<le> length successful then ''medium'' else ''low'')) \<and>
         (successful \<noteq> [] \<and>
          (coordinator (coordinationPrompt r (combinedAnalysis upper successful)) (coordinationModel cfg) =
             ChatFailure msg \<or>
           coordinator (coordinationPrompt r (combinedAnalysis upper successful)) (coordinationModel cfg) =
             ChatMalformed msg \<or>
           coordinator (coordinationPrompt r (combinedAnalysis upper successful)) (coordinationModel cfg) =
             ChatReject msg) \<longrightarrow>
            confidence (fst (coordinateResults cfg upper coordinator results r)) = ''medium'')"
proof (intro conjI impI)
  assume "successful = []"
  then show "confidence (fst (coordinateResults cfg upper coordinator results r)) = ''low''"
    using assms by (simp add: coordinateResults_none degraded_def)
next
  assume "successful \<noteq> [] \<and>
          coordinator (coordinationPrompt r (combinedAnalysis upper successful)) (coordinationModel cfg) =
            ChatSuccess content reason"
  then show "confidence (fst (coordinateResults cfg upper coordinator results r)) =
              (if 4 \<le> length successful then ''high''
               else if 2 \<le> length successful then ''medium'' else ''low'')"
    using coordinateResults_synthesized [where results = results and successful = successful
        and coordinator = coordinator and r = r and cfg = cfg and upper = upper and content = content
        and reason = reason] assms
    by simp
next
  assume "successful \<noteq> [] \<and>
          (coordinator (coordinationPrompt r (combinedAnalysis upper successful)) (coordinationModel cfg) =
             ChatFailure msg \<or>
           coordinator (coordinationPrompt r (combinedAnalysis upper successful)) (coordinationModel cfg) =
             ChatMalformed msg \<or>
           coordinator (coordinationPrompt r (combinedAnalysis upper successful)) (coordinationModel cfg) =
             ChatReject msg)"
  then show "confidence (fst (coordinateResults cfg upper coordinator results r)) = ''medium''"
    using coordinateResults_fallback [where results = results and successful = successful
        and coordinator = coordinator and r = r and cfg = cfg and upper = upper and msg = msg] assms
    by (simp add: fallback_def)
qed

theorem coordinateResults_confidence_witness:
  "length (filter success (map snd fiveOfSix)) = 5 \<and>
   confidence (fst (coordinateResults defaultConfig asciiUpperCase synthesisWorks fiveOfSix sampleRepository)) =
     ''high''"
  using coordinateResults_confidence [where results = fiveOfSix and cfg = defaultConfig
      and coordinator = synthesisWorks and upper = asciiUpperCase and r = sampleRepository and content = "''healthy''"
      and reason = "''all agents agree''", OF fiveOfSix_successful]
  by (simp add: fiveOfSix_successful synthesisWorks_def)

text \<open>
  Claim C2 as stated fails: with 5 successes out of 6 and a synthesis call that answers
  \<^verbatim>\<open>{success: false}\<close>, the confidence is \<open>medium\<close>, not \<open>high\<close>.
\<close>

theorem coordinateResults_confidence_counterexample:
  "length (filter success (map snd fiveOfSix)) = 5 \<and>
   confidence (fst (coordinateResults defaultConfig asciiUpperCase synthesisDown fiveOfSix sampleRepository)) =
     ''medium'' \<and>
   confidence (fst (coordinateResults defaultConfig asciiUpperCase synthesisDown fiveOfSix sampleRepository)) \<noteq>
     ''high''"
  using coordinateResults_fallback [where results = fiveOfSix and coordinator = synthesisDown and upper = asciiUpperCase
      and r = sampleRepository and cfg = defaultConfig and msg = "''unavailable''",
      OF fiveOfSix_successful]
  by (simp add: fiveOfSix_successful synthesisDown_def fallback_def)

text \<open>
  Claim C5. When no result is successful, \<open>coordinateResults\<close> returns the degraded
  result, whose confidence is \<open>low\<close>, and sends no prompt to the wrapper.
\<close>

theorem coordinateResults_no_success:
  assumes "\<forall>p \<in> set results. \<not> success (snd p)"
  shows "fst (coordinateResults cfg upper coordinator results r) = degraded \<and>
         confidence (fst (coordinateResults cfg upper coordinator results r)) = ''low'' \<and>
         snd (coordinateResults cfg upper coordinator results r) = []"
proof -
  have "filter success (map snd results) = []"
    using assms by (simp add: filter_empty_conv)
  then show ?thesis
    by (simp add: coordinateResults_none degraded_def)
qed

theorem coordinateResults_no_success_witness:
  "coordinateResults defaultConfig asciiUpperCase synthesisWorks
     [(''t1'', sampleResult ''t1'' False), (''t2'', sampleResult ''t2'' False)] sampleRepository =
     (\<lparr>summary = ''Swarm analysis failed - no agents completed successfully'',
       recommendations = Some [], synthesisReasoning = None, agentContributions = None,
       analysisTypes = None, confidence = ''low'', coordinationNote = None\<rparr>, [])"
proof -
  have "\<forall>p \<in> set [(''t1'', sampleResult ''t1'' False), (''t2'', sampleResult ''t2'' False)].
          \<not> success (snd p)"
    by (simp add: sampleResult_def)
  from coordinateResults_no_success [OF this, of defaultConfig asciiUpperCase synthesisWorks sampleRepository]
  show ?thesis
    by (simp add: prod_eq_iff degraded_def)
qed

text \<open>
  Claim C6, as the code has it. With at least one success, when the single synthesis call
  fails (it answers \<^verbatim>\<open>{success: false}\<close> or a malformed value, or is rejected),
  \<open>coordinateResults\<close> still
  returns: a fixed summary sentence, the number and the types of the successful results
  (not their outputs), the confidence \<open>medium\<close> and the note that synthesis failed; the
  one prompt it sent is the synthesis request.
\<close>

theorem coordinateResults_synthesis_failed:
  assumes "filter success (map snd results) = successful"
      and "successful \<noteq> []"
      and "coordinator (coordinationPrompt r (combinedAnalysis upper successful)) (coordinationModel cfg) =
             ChatFailure msg \<or>
           coordinator (coordinationPrompt r (combinedAnalysis upper successful)) (coordinationModel cfg) =
             ChatMalformed msg \<or>
           coordinator (coordinationPrompt r (combinedAnalysis upper successful)) (coordinationModel cfg) =
             ChatReject msg"
  shows "coordinateResults cfg upper coordinator results r =
           (\<lparr>summary =
               ''Multiple specialized analyses completed. Individual agent results available.'',
             recommendations = None, synthesisReasoning = None,
             agentContributions = Some (length successful),
             analysisTypes = Some (map rtype successful),
             confidence = ''medium'',
             coordinationNote =
               Some ''Coordination synthesis failed, but individual analyses succeeded''\<rparr>,
            [coordinationPrompt r (combinedAnalysis upper successful)])"
  using coordinateResults_fallback [where results = results and successful = successful
      and coordinator = coordinator and r = r and cfg = cfg and upper = upper and msg = msg] assms
  by (simp add: fallback_def)

theorem coordinateResults_synthesis_failed_witness:
  "fst (coordinateResults defaultConfig asciiUpperCase synthesisDown [(''t1'', sampleResult ''t1'' True)]
          sampleRepository) =
     \<lparr>summary = ''Multiple specialized analyses completed. Individual agent results available.'',
      recommendations = None, synthesisReasoning = None, agentContributions = Some 1,
      analysisTypes = Some [''architecture-analysis''], confidence = ''medium'',
      coordinationNote = Some ''Coordination synthesis failed, but individual analyses succeeded''\<rparr>"
proof -
  have one: "filter success (map snd [(''t1'', sampleResult ''t1'' True)]) = [sampleResult ''t1'' True]"
    by (simp add: sampleResult_def)
  have down: "synthesisDown
      (coordinationPrompt sampleRepository (combinedAnalysis asciiUpperCase [sampleResult ''t1'' True]))
      (coordinationModel defaultConfig) = ChatFailure ''unavailable'' \<or>
    synthesisDown
      (coordinationPrompt sampleRepository (combinedAnalysis asciiUpperCase [sampleResult ''t1'' True]))
      (coordinationModel defaultConfig) = ChatMalformed ''unavailable'' \<or>
    synthesisDown
      (coordinationPrompt sampleRepository (combinedAnalysis asciiUpperCase [sampleResult ''t1'' True]))
      (coordinationModel defaultConfig) = ChatReject ''unavailable''"
    by (simp add: synthesisDown_def)
  from coordinateResults_synthesis_failed [where results = "[(''t1'', sampleResult ''t1'' True)]"
      and coordinator = synthesisDown and upper = asciiUpperCase and r = sampleRepository and cfg = defaultConfig
      and msg = "''unavailable''", OF one _ down]
  show ?thesis
    by (simp add: sampleResult_def)
qed

text \<open>
  Claim C6 as stated fails: for one successful result with the output \<open>fine\<close> and a failed
  synthesis call, the raw concatenation is the labelled output, and the summary returned
  is the fixed sentence; the outputs are in no field of the result.
\<close>

theorem coordinateResults_synthesis_failed_counterexample:
  "combinedAnalysis asciiUpperCase [sampleResult ''t1'' True] =
     ''**ARCHITECTURE-ANALYSIS**:'' @ newline @ ''fine'' \<and>
   fst (coordinateResults defaultConfig asciiUpperCase synthesisDown [(''t1'', sampleResult ''t1'' True)]
          sampleRepository) =
     \<lparr>summary = ''Multiple specialized analyses completed. Individual agent results available.'',
      recommendations = None, synthesisReasoning = None, agentContributions = Some 1,
      analysisTypes = Some [''architecture-analysis''], confidence = ''medium'',
      coordinationNote = Some ''Coordination synthesis failed, but individual analyses succeeded''\<rparr> \<and>
   summary (fst (coordinateResults defaultConfig asciiUpperCase synthesisDown [(''t1'', sampleResult ''t1'' True)]
          sampleRepository)) \<noteq> combinedAnalysis asciiUpperCase [sampleResult ''t1'' True]"
proof -
  have one: "filter success (map snd [(''t1'', sampleResult ''t1'' True)]) = [sampleResult ''t1'' True]"
    by (simp add: sampleResult_def)
  have raw: "combinedAnalysis asciiUpperCase [sampleResult ''t1'' True] =
     ''**ARCHITECTURE-ANALYSIS**:'' @ newline @ ''fine''"
    by (simp add: combinedAnalysis_def labelled_def sampleResult_def asciiUpperCase_def asciiUpperChar_def)
  have res: "coordinateResults defaultConfig asciiUpperCase synthesisDown [(''t1'', sampleResult ''t1'' True)]
          sampleRepository =
       (fallback [sampleResult ''t1'' True],
        [coordinationPrompt sampleRepository (combinedAnalysis asciiUpperCase [sampleResult ''t1'' True])])"
    using coordinateResults_fallback [where results = "[(''t1'', sampleResult ''t1'' True)]"
        and coordinator = synthesisDown and upper = asciiUpperCase and r = sampleRepository and cfg = defaultConfig
        and msg = "''unavailable''", OF one]
    by (simp add: synthesisDown_def)
  show ?thesis
    unfolding res raw
    by (simp add: fallback_def sampleResult_def)
qed

section \<open>Claims about executeSwarmTasks and analyzeRepositorySwarm\<close>

lemma createSwarmTasks_none:
  assumes "\<forall>k \<in> set analysisKinds. k \<notin> set types"
  shows "createSwarmTasks stamp r types = []"
  using assms by (simp add: createSwarmTasks_def requested_def analysisKinds_def)

lemma executeSwarmTasks_empty:
  "executeSwarmTasks cfg st backend [] = Returns \<lparr>returned = [], returnedAt = 0, admitted = []\<rparr>"
  by (simp add: executeSwarmTasks_def sortByPriority_def allSettledAt_def)

lemma updateSwarmMetrics_empty: "updateSwarmMetrics m [] = m"
  by (simp add: updateSwarmMetrics_def)

text \<open>
  Up to the ceiling the loop never waits: every task is started at once and every promise
  stays in \<^verbatim>\<open>activeTasks\<close> until the end.
\<close>

lemma admitTasks_within_ceiling:
  "length active + length tasks \<le> maxConcurrentAgents cfg \<Longrightarrow>
     admitTasks cfg start now active started tasks =
       Returns (now, active @ map (start now) tasks, started @ map (start now) tasks)"
proof (induction tasks arbitrary: active started)
  case Nil
  then show ?case by simp
next
  case (Cons task rest)
  then have "\<not> maxConcurrentAgents cfg \<le> length active"
    by simp
  moreover have "length (active @ [start now task]) + length rest \<le> maxConcurrentAgents cfg"
    using Cons.prems by simp
  ultimately show ?case
    using Cons.IH [of "active @ [start now task]" "started @ [start now task]"]
    by simp
qed

lemma executeSwarmTasks_within_ceiling:
  assumes "length tasks \<le> maxConcurrentAgents cfg"
  shows "executeSwarmTasks cfg st backend tasks =
           Returns \<lparr>returned =
                      collectResults [] (map (startTask cfg st backend 0) (sortByPriority tasks)),
                    returnedAt =
                      allSettledAt 0 (map (startTask cfg st backend 0) (sortByPriority tasks)),
                    admitted = map (startTask cfg st backend 0) (sortByPriority tasks)\<rparr>"
proof -
  have "length [] + length (sortByPriority tasks) \<le> maxConcurrentAgents cfg"
    using assms by (simp add: sortByPriority_def)
  from admitTasks_within_ceiling [OF this]
  show ?thesis
    by (simp add: executeSwarmTasks_def)
qed

text \<open>
  Up to the ceiling, with distinct task ids and registered agents, the returned map has
  exactly one entry per task, under the task's id, in the sorted order.
\<close>

lemma executeAgentTask_returns:
  assumes "agents st (task_agentId task) = Some ag"
      and "agentEfficiency (swarmMetrics st) (task_agentId task) = Some e"
  shows "\<exists>v. snd (executeAgentTask cfg st task call) = Inr v \<and> taskId v = task_id task"
  using assms
  by (auto simp: executeAgentTask_def tryBlock_def catchBlock_def setAgent_def setEfficiency_def
      Let_def split: chat_response.splits)

lemma mapSet_fresh: "k \<notin> fst ` set m \<Longrightarrow> mapSet k v m = m @ [(k, v)]"
  by (induction m) auto

lemma collectResults_distinct:
  assumes "\<forall>p \<in> set ps. \<exists>v. settled p = Inr v \<and> taskId v = p_id p"
      and "distinct (map fst acc @ map p_id ps)"
  shows "map fst (collectResults acc ps) = map fst acc @ map p_id ps"
  using assms
proof (induction ps arbitrary: acc)
  case Nil
  then show ?case by simp
next
  case (Cons p ps)
  obtain v where v: "settled p = Inr v" "taskId v = p_id p"
    using Cons.prems(1) by auto
  have fresh: "p_id p \<notin> fst ` set acc"
    using Cons.prems(2) by auto
  have next_acc: "mapSet (taskId v) v acc = acc @ [(p_id p, v)]"
    using mapSet_fresh [OF fresh] v(2) by simp
  have "distinct (map fst (acc @ [(p_id p, v)]) @ map p_id ps)"
    using Cons.prems(2) by auto
  moreover have "\<forall>q \<in> set ps. \<exists>v. settled q = Inr v \<and> taskId v = p_id q"
    using Cons.prems(1) by simp
  ultimately have "map fst (collectResults (acc @ [(p_id p, v)]) ps) =
      map fst (acc @ [(p_id p, v)]) @ map p_id ps"
    by (rule Cons.IH [rotated])
  then show ?case
    using v(1) next_acc by simp
qed

lemma executeSwarmTasks_complete_within_ceiling:
  assumes "length tasks \<le> maxConcurrentAgents cfg"
      and "distinct (map task_id tasks)"
      and "\<forall>t \<in> set tasks. agents st (task_agentId t) \<noteq> None \<and>
             agentEfficiency (swarmMetrics st) (task_agentId t) \<noteq> None"
  shows "\<exists>ex. executeSwarmTasks cfg st backend tasks = Returns ex \<and>
              map fst (returned ex) = map task_id (sortByPriority tasks)"
proof -
  let ?ps = "map (startTask cfg st backend 0) (sortByPriority tasks)"
  have ids: "map p_id ?ps = map task_id (sortByPriority tasks)"
    by (simp add: startTask_def comp_def)
  have "distinct (map task_id (sortByPriority tasks))"
    using assms(2) by (simp add: distinct_map sortByPriority_def)
  then have "distinct (map p_id ?ps)"
    by (simp only: ids)
  then have d: "distinct (map fst [] @ map p_id ?ps)"
    by simp
  have "\<forall>p \<in> set ?ps. \<exists>v. settled p = Inr v \<and> taskId v = p_id p"
  proof
    fix p assume "p \<in> set ?ps"
    then obtain t where t: "t \<in> set tasks" "p = startTask cfg st backend 0 t"
      by (auto simp: sortByPriority_def)
    obtain ag e where "agents st (task_agentId t) = Some ag"
      "agentEfficiency (swarmMetrics st) (task_agentId t) = Some e"
      using assms(3) t(1) by auto
    from executeAgentTask_returns [OF this, of cfg "backend t"]
    show "\<exists>v. settled p = Inr v \<and> taskId v = p_id p"
      using t(2) by (simp add: startTask_def)
  qed
  from collectResults_distinct [OF this d]
  have "map fst (collectResults [] ?ps) = map task_id (sortByPriority tasks)"
    using ids by simp
  then show ?thesis
    using executeSwarmTasks_within_ceiling [OF assms(1), of st backend] by simp
qed

text \<open>
  \<^verbatim>\<open>activeTasks\<close> never grows beyond the ceiling, and only the promises left in it at the
  end are collected: the returned map has at most \<^verbatim>\<open>maxConcurrentAgents\<close> entries, however
  many tasks were submitted.
\<close>

lemma findIndexFrom_range:
  "findIndexFrom P xs i = - 1 \<or> (i \<le> findIndexFrom P xs i \<and> findIndexFrom P xs i < i + int (length xs))"
proof (induction xs arbitrary: i)
  case Nil
  then show ?case by simp
next
  case (Cons x xs)
  show ?case
    using Cons.IH [of "i + 1"] by auto
qed

lemma length_splice1_findIndex:
  assumes "xs \<noteq> []"
  shows "length (splice1 (findIndex P xs) xs) = length xs - 1"
proof -
  have "findIndex P xs = - 1 \<or> (0 \<le> findIndex P xs \<and> findIndex P xs < int (length xs))"
    using findIndexFrom_range [of P xs 0] by (simp add: findIndex_def)
  moreover have "0 < length xs"
    using assms by simp
  ultimately show ?thesis
    by (auto simp: splice1_def Let_def)
qed

lemma admitTasks_active_bound:
  assumes "admitTasks cfg start now active started tasks = Returns (now', active', started')"
      and "length active \<le> maxConcurrentAgents cfg" and "0 < maxConcurrentAgents cfg"
  shows "length active' \<le> maxConcurrentAgents cfg"
  using assms
proof (induction tasks arbitrary: now active started)
  case Nil
  then show ?case by simp
next
  case (Cons task rest)
  show ?case
  proof (cases "maxConcurrentAgents cfg \<le> length active")
    case False
    then have "length (active @ [start now task]) \<le> maxConcurrentAgents cfg"
      by simp
    moreover have "admitTasks cfg start now (active @ [start now task])
        (started @ [start now task]) rest = Returns (now', active', started')"
      using Cons.prems(1) False by simp
    ultimately show ?thesis
      using Cons.IH Cons.prems(3) by blast
  next
    case True
    then have ne: "active \<noteq> []"
      using Cons.prems(3) by auto
    obtain t w where race: "raceActive now active = Some (t, w)"
      using Cons.prems(1) True by (auto split: option.splits)
    obtain res where fulfilled: "settled w = Inr res"
      using Cons.prems(1) True race by (auto split: sum.splits)
    let ?kept = "splice1 (findIndex (\<lambda>p. Some (p_id p) = result_id res) active) active"
    have step: "admitTasks cfg start t (?kept @ [start t task]) (started @ [start t task]) rest =
        Returns (now', active', started')"
      using Cons.prems(1) True race fulfilled by simp
    have "length ?kept = length active - 1"
      using ne by (rule length_splice1_findIndex)
    then have "length (?kept @ [start t task]) \<le> maxConcurrentAgents cfg"
      using ne Cons.prems(2) by (cases active) auto
    then show ?thesis
      using Cons.IH [OF step] Cons.prems(3) by blast
  qed
qed

lemma length_mapSet: "length (mapSet k v m) \<le> Suc (length m)"
  by (induction m) auto

lemma length_collectResults:
  "length (collectResults acc ps) \<le> length acc + length ps"
proof (induction ps arbitrary: acc)
  case Nil
  then show ?case by simp
next
  case (Cons p ps)
  show ?case
  proof (cases "settled p")
    case (Inl e)
    then show ?thesis
      using Cons.IH [of acc] by simp
  next
    case (Inr v)
    have "length (collectResults (mapSet (taskId v) v acc) ps) \<le>
            length (mapSet (taskId v) v acc) + length ps"
      by (rule Cons.IH)
    also have "\<dots> \<le> Suc (length acc) + length ps"
      using length_mapSet [of "taskId v" v acc] by simp
    finally show ?thesis
      using Inr by simp
  qed
qed

lemma executeSwarmTasks_returned_bound:
  assumes "executeSwarmTasks cfg st backend tasks = Returns ex"
      and "0 < maxConcurrentAgents cfg"
  shows "length (returned ex) \<le> maxConcurrentAgents cfg"
proof -
  obtain now active started where
    loop: "admitTasks cfg (startTask cfg st backend) 0 [] [] (sortByPriority tasks) =
             Returns (now, active, started)"
    and ex: "ex = \<lparr>returned = collectResults [] active, returnedAt = allSettledAt now active,
                   admitted = started\<rparr>"
    using assms(1) by (auto simp: executeSwarmTasks_def split: completion.splits)
  have "length active \<le> maxConcurrentAgents cfg"
    using admitTasks_active_bound [OF loop] assms(2) by simp
  moreover have "length (collectResults [] active) \<le> length active"
    using length_collectResults [of "[]" active] by simp
  ultimately show ?thesis
    using ex by simp
qed

text \<open>Tasks of one priority keep their order.\<close>

lemma sortByPriority_sample:
  "sortByPriority (map sampleTask ids) = map sampleTask ids"
proof -
  have "map (\<lambda>t. - priorityValue (task_priority t)) (map sampleTask ids) =
          replicate (length ids) (- 3)"
    by (induction ids) (simp_all add: sampleTask_fields)
  then have "sorted (map (\<lambda>t. - priorityValue (task_priority t)) (map sampleTask ids))"
    by (simp only: sorted_replicate)
  then show ?thesis
    unfolding sortByPriority_def by (rule sort_key_id_if_sorted)
qed

text \<open>The promise of a sample task that the backend answers in time.\<close>

lemma startTask_sample:
  assumes "backend (sampleTask i) = answers n" and "n \<le> 120000"
  shows "startTask twoAtOnce initializeAgents backend now (sampleTask i) =
           \<lparr>p_id = i, startedAt = now, settlesAt = now + n,
            settled = Inr \<lparr>taskId = i, agentId = ''architect'', rtype = ''architecture-analysis'',
                           success = True, result = Some ''fine'', reasoning = Some ''because'',
                           error = None, executionTime = n\<rparr>\<rparr>"
proof -
  have t: "\<not> timedOut twoAtOnce (answers n)"
    using assms(2) by (simp add: timedOut_def answers_fields default_delay)
  show ?thesis
    using executeAgentTask_success [of initializeAgents "sampleTask i"
        "newAgent ''architect'' ''x-ai/grok-code-fast-1''" newEfficiency twoAtOnce "answers n"
        "''fine''" "''because''"] t
    by (simp add: startTask_def assms(1) sampleTask_fields initial_architect answers_fields
        elapsed_def)
qed

text \<open>
  The efficiency is rounded from doubles: for 23 tasks completed out of 40 the quotient
  times 100 is the double just below 57.5, and the efficiency is 57, where the exact
  quotient 57.5 would round to 58. One out of eight is 12.5 exactly and rounds to 13.
\<close>

lemma bits_numeral:
  "bits 0 = 0" "bits 1 = 1"
  "bits (numeral (Num.Bit0 k)) = Suc (bits (numeral k))"
  "bits (numeral (Num.Bit1 k)) = Suc (bits (numeral k))"
proof -
  show zero: "bits 0 = 0"
    by (simp add: bits.simps [of 0])
  show "bits 1 = 1"
    by (subst bits.simps) (simp add: zero)
  have "numeral (Num.Bit0 k) div 2 = (numeral k :: nat)"
    by (rule numeral_Bit0_div_2)
  then show "bits (numeral (Num.Bit0 k)) = Suc (bits (numeral k))"
    by (subst bits.simps) simp
  have "numeral (Num.Bit1 k) div 2 = (numeral k :: nat)"
    by (rule numeral_Bit1_div_2)
  then show "bits (numeral (Num.Bit1 k)) = Suc (bits (numeral k))"
    by (subst bits.simps) simp
qed

lemma calculateSwarmEfficiency_doubles:
  "calculateSwarmEfficiency
     \<lparr>totalTasks = 40, completedTasks = 23, failedTasks = 17, averageTaskTime = 0,
      agentEfficiency = Map.empty\<rparr> = 57"
  "calculateSwarmEfficiency
     \<lparr>totalTasks = 8, completedTasks = 1, failedTasks = 7, averageTaskTime = 0,
      agentEfficiency = Map.empty\<rparr> = 13"
  by (simp_all add: calculateSwarmEfficiency_def toDouble_def timesDouble_def binaryExponent_def
      atLeastPow2_def roundHalfEven_def mathRound_def bits_numeral Let_def)

text \<open>
  Once \<open>executeSwarmTasks\<close> has returned, whatever the synthesis call settles with,
  \<open>analyzeRepositorySwarm\<close> returns.
\<close>

lemma analyzeRepositorySwarm_returns:
  assumes "executeSwarmTasks cfg st backend
             (createSwarmTasks stamp r
                (case requestedTypes of None \<Rightarrow> [''comprehensive''] | Some ts \<Rightarrow> ts)) = Returns ex"
  shows "\<exists>run. analyzeRepositorySwarm cfg st stamp upper backend coordinator r requestedTypes = Returns run \<and>
               individualResults run = returned ex \<and>
               swarmAnalysis run = fst (coordinateResults cfg upper coordinator (returned ex) r)"
  using assms by (simp add: analyzeRepositorySwarm_def Let_def)

text \<open>
  Claim C9. With a list of analysis types that names none of the kinds
  \<open>createSwarmTasks\<close> looks for (the empty list among them), \<open>analyzeRepositorySwarm\<close>
  returns, without throwing: a run with no task and no result, whose analysis is the
  degraded result of confidence \<open>low\<close>, for every configuration, backend and state.
\<close>

theorem analyzeRepositorySwarm_no_kinds:
  assumes "\<forall>k \<in> set analysisKinds. k \<notin> set types"
  shows "analyzeRepositorySwarm cfg st stamp upper backend coordinator r (Some types) =
           Returns \<lparr>run_repository = owner r @ ''/'' @ repo r, run_tasks = [],
                    swarmAnalysis = degraded, individualResults = [],
                    run_totalTasks = totalTasks (swarmMetrics st),
                    run_completedTasks = completedTasks (swarmMetrics st),
                    run_failedTasks = failedTasks (swarmMetrics st),
                    run_averageTaskTime = averageTaskTime (swarmMetrics st),
                    swarmEfficiency = calculateSwarmEfficiency (swarmMetrics st),
                    synthesisCalls = []\<rparr> \<and>
         confidence degraded = ''low''"
  by (simp add: analyzeRepositorySwarm_def createSwarmTasks_none [OF assms] executeSwarmTasks_empty
      coordinateResults_none updateSwarmMetrics_empty Let_def degraded_def)

theorem analyzeRepositorySwarm_no_kinds_witness:
  "analyzeRepositorySwarm defaultConfig initializeAgents (\<lambda>k. ''1762000000000'') asciiUpperCase
     quickFirst
     synthesisWorks sampleRepository (Some []) =
     Returns \<lparr>run_repository = ''acme/demo'', run_tasks = [],
              swarmAnalysis =
                \<lparr>summary = ''Swarm analysis failed - no agents completed successfully'',
                 recommendations = Some [], synthesisReasoning = None, agentContributions = None,
                 analysisTypes = None, confidence = ''low'', coordinationNote = None\<rparr>,
              individualResults = [],
              run_totalTasks = 0, run_completedTasks = 0, run_failedTasks = 0,
              run_averageTaskTime = 0, swarmEfficiency = 100,
              synthesisCalls = []\<rparr>"
proof -
  have "\<forall>k \<in> set analysisKinds. k \<notin> set []"
    by simp
  from analyzeRepositorySwarm_no_kinds [OF this, of defaultConfig initializeAgents
      "\<lambda>k. ''1762000000000''" asciiUpperCase quickFirst synthesisWorks sampleRepository]
  show ?thesis
    by (simp add: sampleRepository_def degraded_def calculateSwarmEfficiency_def
        initializeAgents_def)
qed

text \<open>
  Claim C1 against the code. With \<^verbatim>\<open>maxConcurrentAgents: 2\<close> and three tasks \<open>a\<close>, \<open>b\<close>, \<open>c\<close>
  whose chat calls take 10, 1000 and 10 ms, the loop waits at the third task until \<open>a\<close>
  has settled, removes the last promise of \<^verbatim>\<open>activeTasks\<close>, which is that of \<open>b\<close>, and
  starts \<open>c\<close>. The returned map has the results of \<open>a\<close> and \<open>c\<close> only, and the function
  returns at 20 ms, while \<open>b\<close> runs until 1000 ms.
\<close>

theorem executeSwarmTasks_loses_result:
  "(case executeSwarmTasks twoAtOnce initializeAgents slowSecond
           [sampleTask ''a'', sampleTask ''b'', sampleTask ''c''] of
      Returns ex \<Rightarrow>
        (map fst (returned ex), returnedAt ex,
         map (\<lambda>p. (p_id p, startedAt p, settlesAt p)) (admitted ex))
    | Throws err \<Rightarrow> ([], 0, [])
    | Hangs \<Rightarrow> ([], 0, [])) =
   ([''a'', ''c''], 20, [(''a'', 0, 10), (''b'', 0, 1000), (''c'', 10, 20)])"
proof -
  have so: "sortByPriority [sampleTask ''a'', sampleTask ''b'', sampleTask ''c''] =
      [sampleTask ''a'', sampleTask ''b'', sampleTask ''c'']"
    using sortByPriority_sample [of "[''a'', ''b'', ''c'']"] by simp
  have st: "startTask twoAtOnce initializeAgents slowSecond now (sampleTask i) =
           \<lparr>p_id = i, startedAt = now, settlesAt = now + (if i = ''b'' then 1000 else 10),
            settled = Inr \<lparr>taskId = i, agentId = ''architect'', rtype = ''architecture-analysis'',
                           success = True, result = Some ''fine'', reasoning = Some ''because'',
                           error = None, executionTime = (if i = ''b'' then 1000 else 10)\<rparr>\<rparr>"
    for now i
    using startTask_sample [of slowSecond i "if i = ''b'' then 1000 else 10" now]
    by (simp add: slowSecond_def sampleTask_fields)
  show ?thesis
    by (simp add: executeSwarmTasks_def so st default_timeout raceActive_def findIndex_def
        splice1_def result_id_def allSettledAt_def)
qed

text \<open>
  Claim C3 against the code. With \<^verbatim>\<open>maxConcurrentAgents: 2\<close> and four tasks of which only \<open>a\<close>
  is quick, the loop starts \<open>c\<close> and \<open>d\<close> at 10 ms, when \<open>a\<close> has settled: the race of the
  fourth iteration is settled at once by the promise of \<open>a\<close>, which is still in
  \<^verbatim>\<open>activeTasks\<close>. At 10 ms the tasks \<open>b\<close>, \<open>c\<close> and \<open>d\<close> are running, three against a
  ceiling of two.
\<close>

theorem executeSwarmTasks_exceeds_ceiling:
  "(case executeSwarmTasks twoAtOnce initializeAgents quickFirst
           [sampleTask ''a'', sampleTask ''b'', sampleTask ''c'', sampleTask ''d''] of
      Returns ex \<Rightarrow>
        (map (\<lambda>p. (p_id p, startedAt p, settlesAt p)) (admitted ex),
         map p_id (inFlight (admitted ex) 10))
    | Throws err \<Rightarrow> ([], [])
    | Hangs \<Rightarrow> ([], [])) =
   ([(''a'', 0, 10), (''b'', 0, 1000), (''c'', 10, 1010), (''d'', 10, 1010)],
    [''b'', ''c'', ''d'']) \<and>
   maxConcurrentAgents twoAtOnce = 2"
proof -
  have so: "sortByPriority [sampleTask ''a'', sampleTask ''b'', sampleTask ''c'', sampleTask ''d''] =
      [sampleTask ''a'', sampleTask ''b'', sampleTask ''c'', sampleTask ''d'']"
    using sortByPriority_sample [of "[''a'', ''b'', ''c'', ''d'']"] by simp
  have st: "startTask twoAtOnce initializeAgents quickFirst now (sampleTask i) =
           \<lparr>p_id = i, startedAt = now, settlesAt = now + (if i = ''a'' then 10 else 1000),
            settled = Inr \<lparr>taskId = i, agentId = ''architect'', rtype = ''architecture-analysis'',
                           success = True, result = Some ''fine'', reasoning = Some ''because'',
                           error = None, executionTime = (if i = ''a'' then 10 else 1000)\<rparr>\<rparr>"
    for now i
    using startTask_sample [of quickFirst i "if i = ''a'' then 10 else 1000" now]
    by (simp add: quickFirst_def sampleTask_fields)
  show ?thesis
    by (simp add: executeSwarmTasks_def so st default_timeout raceActive_def findIndex_def
        splice1_def result_id_def allSettledAt_def inFlight_def)
qed

end
